theory Spec2Isabelle
  imports Main "HOL-Library.Word"
begin

section \<open>Kernel index type (csrc/utils.h, KernelIndexTypeCompute)\<close>

text \<open>
  Errors are values: every \<^verbatim>\<open>NVF_ERROR\<close> / \<^verbatim>\<open>NVF_CHECK\<close> of the source that
  fails is the result \<open>Inl NVF_ERROR\<close> of the model.
\<close>

datatype error = NVF_ERROR

text \<open>The two index types \<^verbatim>\<open>PrimDataType::Int\<close> (64 bit) and \<^verbatim>\<open>PrimDataType::Int32\<close>.\<close>

datatype PrimDataType = PrimDataType_Int | PrimDataType_Int32

type_synonym int64_t = "64 word"

text \<open>
  \<^verbatim>\<open>static constexpr int64_t most_positive_int32_index = std::numeric_limits<int>::max() / 2;\<close>
  ("Save 1 more bit besides the sign bit to be conservative").
\<close>

definition int_max :: int where
  "int_max = 2147483647"

definition most_positive_int32_index :: int where
  "most_positive_int32_index = int_max div 2"

record KernelIndexTypeCompute =
  tensor_most_positive_index :: int64_t

definition KernelIndexTypeCompute_init :: KernelIndexTypeCompute where
  "KernelIndexTypeCompute_init = \<lparr>tensor_most_positive_index = 0\<rparr>"

definition getType :: "KernelIndexTypeCompute \<Rightarrow> PrimDataType" where
  "getType c =
     (if sint (tensor_most_positive_index c) > most_positive_int32_index then PrimDataType_Int else PrimDataType_Int32)"

text \<open>
  \<^verbatim>\<open>addDim(size, stride)\<close>: sizes and strides are signed 64-bit values; the
  accumulation is the machine addition and multiplication of \<^typ>\<open>int64_t\<close>.
\<close>

definition addDim ::
  "KernelIndexTypeCompute \<Rightarrow> int64_t \<Rightarrow> int64_t \<Rightarrow> error + (PrimDataType \<times> KernelIndexTypeCompute)"
where
  "addDim c sz stride =
     (if sint sz > 1 then
        (if \<not> (sint stride \<ge> 0) then Inl NVF_ERROR
         else if sint stride > 0 then
           (let c' = c\<lparr>tensor_most_positive_index :=
                        tensor_most_positive_index c + (sz - 1) * stride\<rparr>
            in Inr (getType c', c'))
         else Inr (getType c, c))
      else Inr (getType c, c))"

text \<open>The dimensions of one tensor, added in order; the first error stops the walk.\<close>

fun addDims ::
  "KernelIndexTypeCompute \<Rightarrow> (int64_t \<times> int64_t) list \<Rightarrow> error + KernelIndexTypeCompute"
where
  "addDims c [] = Inr c"
| "addDims c ((sz, stride) # ds) =
     (case addDim c sz stride of
        Inl e \<Rightarrow> Inl e
      | Inr (_, c') \<Rightarrow> addDims c' ds)"

text \<open>
  The most positive index of a tensor with the given (size, stride) pairs: what
  \<^verbatim>\<open>addDim\<close> accumulates when nothing overflows.
\<close>

fun most_positive_index :: "(int64_t \<times> int64_t) list \<Rightarrow> int" where
  "most_positive_index [] = 0"
| "most_positive_index ((sz, stride) # ds) =
     (if sint sz > 1 \<and> sint stride > 0 then (sint sz - 1) * sint stride else 0)
       + most_positive_index ds"

text \<open>A contiguous tensor of shape 1024 x 1024 x 1024.\<close>

definition example_dims :: "(int64_t \<times> int64_t) list" where
  "example_dims = [(1024, 1048576), (1024, 1024), (1024, 1)]"

section \<open>Runtime info (csrc/scheduler/registry.cpp, SchedulerRuntimeInfo)\<close>

type_synonym size_t = "64 word"

text \<open>An IR node is identified by its address (\<^verbatim>\<open>Val*\<close>, \<^verbatim>\<open>TensorView*\<close>).\<close>

type_synonym Val = nat

text \<open>
  Modelled from the spec: \<^verbatim>\<open>max_alignment_size_in_byte\<close> is a constant of
  \<^verbatim>\<open>SchedulerRuntimeInfo\<close> declared in scheduler/registry.h, which is not among the
  sources; the maximum alignment size is 16 bytes.
\<close>

definition max_alignment_size_in_byte :: size_t where
  "max_alignment_size_in_byte = 16"

text \<open>
  The members the alignment queries read and write. \<^verbatim>\<open>input_sizes_\<close> and
  \<^verbatim>\<open>input_strides_elements_\<close> are written by the constructor only and read by
  neither \<^verbatim>\<open>ptrOf\<close> nor \<^verbatim>\<open>getAlignmentSize\<close>.
\<close>

record SchedulerRuntimeInfo =
  index_type :: PrimDataType
  input_ptrs :: "Val \<rightharpoonup> size_t"
  input_discontig_strides :: "Val \<rightharpoonup> size_t list"
  alignment_map :: "Val \<rightharpoonup> size_t"

text \<open>
  One fusion input together with the argument bound to it: whether the
  \<^verbatim>\<open>dynamic_cast<TensorView*>\<close> succeeds, whether it is a CPU scalar, and the evaluated
  metadata (\<^verbatim>\<open>data\<close>, \<^verbatim>\<open>alloc_size\<close>, \<^verbatim>\<open>alloc_stride\<close>) and
  \<^verbatim>\<open>dataTypeSize(input_tv->dtype())\<close>.
\<close>

record FusionInput =
  val :: Val
  is_TensorView :: bool
  isCpuScalar :: bool
  data :: size_t
  alloc_size :: "int64_t list"
  alloc_stride :: "int64_t list"
  dtype_size :: int64_t

text \<open>
  "find and push discontiguous stride": the loop runs from the innermost dimension
  (\<^verbatim>\<open>dim = dims - 1\<close>) outwards, so it is given the (size, stride) pairs reversed.
\<close>

fun discontig_strides_loop ::
  "(int64_t \<times> int64_t) list \<Rightarrow> int64_t \<Rightarrow> int64_t \<Rightarrow> size_t list \<Rightarrow> size_t list"
where
  "discontig_strides_loop [] dsize expected_stride acc = acc"
| "discontig_strides_loop ((sz, stride) # ds) dsize expected_stride acc =
     (if sint sz \<le> 1 \<or> stride = 0 then discontig_strides_loop ds dsize expected_stride acc
      else if stride \<noteq> expected_stride
        then discontig_strides_loop ds dsize (stride * sz) (acc @ [stride * dsize])
        else discontig_strides_loop ds dsize (expected_stride * sz) acc)"

definition discontig_strides :: "FusionInput \<Rightarrow> size_t list" where
  "discontig_strides inp =
     discontig_strides_loop (rev (zip (alloc_size inp) (alloc_stride inp))) (dtype_size inp) 1 []"

text \<open>The body of the constructor's loop over the inputs, for one input.\<close>

definition bind_input :: "SchedulerRuntimeInfo \<Rightarrow> FusionInput \<Rightarrow> error + SchedulerRuntimeInfo" where
  "bind_input s inp =
     (if is_TensorView inp \<and> \<not> isCpuScalar inp then
        (if length (alloc_size inp) \<noteq> length (alloc_stride inp) then Inl NVF_ERROR
         else Inr (s\<lparr>input_ptrs := (input_ptrs s)(val inp \<mapsto> data inp),
                     input_discontig_strides :=
                       (input_discontig_strides s)(val inp \<mapsto> discontig_strides inp)\<rparr>))
      else Inr s)"

fun bind_inputs :: "SchedulerRuntimeInfo \<Rightarrow> FusionInput list \<Rightarrow> error + SchedulerRuntimeInfo" where
  "bind_inputs s [] = Inr s"
| "bind_inputs s (inp # inps) =
     (case bind_input s inp of Inl e \<Rightarrow> Inl e | Inr s' \<Rightarrow> bind_inputs s' inps)"

text \<open>
  The constructor. \<^verbatim>\<open>registry_utils::getIndexTypeOfKernel\<close> is not among the sources;
  its result is a parameter.
\<close>

definition SchedulerRuntimeInfo_ctor ::
  "FusionInput list \<Rightarrow> nat \<Rightarrow> PrimDataType option \<Rightarrow> PrimDataType \<Rightarrow> error + SchedulerRuntimeInfo"
where
  "SchedulerRuntimeInfo_ctor inputs args_size forced_index_type getIndexTypeOfKernel =
     (if length inputs \<noteq> args_size then Inl NVF_ERROR
      else bind_inputs
        \<lparr>index_type = (case forced_index_type of Some t \<Rightarrow> t | None \<Rightarrow> getIndexTypeOfKernel),
         input_ptrs = Map.empty, input_discontig_strides = Map.empty,
         alignment_map = Map.empty\<rparr> inputs)"

definition ptrOf :: "SchedulerRuntimeInfo \<Rightarrow> Val \<Rightarrow> size_t" where
  "ptrOf s tv = (case input_ptrs s tv of Some p \<Rightarrow> p | None \<Rightarrow> max_alignment_size_in_byte)"

text \<open>
  The \<^verbatim>\<open>while\<close> loop of \<^verbatim>\<open>computeAlignmentSize\<close>. The remainder by zero is undefined
  in the source; the loop starts at 2 and doubles up to at most 32, so it never takes one,
  and the model stops there.
\<close>

function computeAlignmentSize_loop :: "size_t \<Rightarrow> size_t \<Rightarrow> size_t \<Rightarrow> size_t" where
  "computeAlignmentSize_loop ptr_address alignment_size next_alignment_size =
     (if next_alignment_size \<noteq> 0 \<and> next_alignment_size \<le> max_alignment_size_in_byte \<and>
         ptr_address mod next_alignment_size = 0
      then computeAlignmentSize_loop ptr_address next_alignment_size (next_alignment_size * 2)
      else alignment_size)"
  by pat_completeness auto
termination
proof (relation "measure (\<lambda>(p, a, n). 17 - unat n)")
  show "wf (measure (\<lambda>(p, a, n). 17 - unat n))" by simp
next
  fix ptr_address alignment_size next_alignment_size :: size_t
  assume a: "next_alignment_size \<noteq> 0 \<and> next_alignment_size \<le> max_alignment_size_in_byte \<and>
         ptr_address mod next_alignment_size = 0"
  then have le: "unat next_alignment_size \<le> 16"
    by (simp add: max_alignment_size_in_byte_def word_le_nat_alt)
  from a have pos: "0 < unat next_alignment_size"
    by (simp add: unat_gt_0)
  have "unat (next_alignment_size * 2) = unat next_alignment_size * 2"
    using le by (simp add: unat_word_ariths)
  with le pos show "((ptr_address, next_alignment_size, next_alignment_size * 2),
         (ptr_address, alignment_size, next_alignment_size)) \<in> measure (\<lambda>(p, a, n). 17 - unat n)"
    by simp
qed

definition computeAlignmentSize :: "size_t \<Rightarrow> size_t" where
  "computeAlignmentSize ptr_address = computeAlignmentSize_loop ptr_address 1 2"

text \<open>\<^verbatim>\<open>getAlignmentSize\<close> returns the alignment and the runtime info with the memo updated.\<close>

definition getAlignmentSize :: "SchedulerRuntimeInfo \<Rightarrow> Val \<Rightarrow> size_t \<times> SchedulerRuntimeInfo" where
  "getAlignmentSize s tv =
     (case alignment_map s tv of
        Some alignment_entry \<Rightarrow> (alignment_entry, s)
      | None \<Rightarrow>
          (let alignment_size = computeAlignmentSize (ptrOf s tv);
               alignment_size' =
                 (case input_discontig_strides s tv of
                    Some strides \<Rightarrow>
                      fold (\<lambda>stride a. min a (computeAlignmentSize stride)) strides alignment_size
                  | None \<Rightarrow> alignment_size)
           in (alignment_size', s\<lparr>alignment_map := (alignment_map s)(tv \<mapsto> alignment_size')\<rparr>)))"

text \<open>
  The runtime infos that a program can hold: the constructed one, and any one obtained
  from it by calls of \<^verbatim>\<open>getAlignmentSize\<close> (the only member that writes after
  construction).
\<close>

inductive reachable :: "SchedulerRuntimeInfo \<Rightarrow> SchedulerRuntimeInfo \<Rightarrow> bool" where
  reachable_refl: "reachable s s"
| reachable_call: "reachable s s' \<Longrightarrow> reachable s (snd (getAlignmentSize s' tv))"

text \<open>The value \<^verbatim>\<open>getAlignmentSize\<close> computes when the tensor has no memoized entry.\<close>

definition fresh_alignment :: "SchedulerRuntimeInfo \<Rightarrow> Val \<Rightarrow> size_t" where
  "fresh_alignment s tv =
     (case input_discontig_strides s tv of
        Some strides \<Rightarrow>
          fold (\<lambda>stride a. min a (computeAlignmentSize stride)) strides
            (computeAlignmentSize (ptrOf s tv))
      | None \<Rightarrow> computeAlignmentSize (ptrOf s tv))"

text \<open>Every memoized alignment is the one a fresh computation gives.\<close>

definition memo_ok :: "SchedulerRuntimeInfo \<Rightarrow> bool" where
  "memo_ok s \<longleftrightarrow> (\<forall>tv a. alignment_map s tv = Some a \<longrightarrow> a = fresh_alignment s tv)"

text \<open>
  A run with two inputs: a 4 x 6 tensor of 2-byte elements at address 139637976727600 (16-byte aligned) whose inner
  stride is 2 elements, and a CPU scalar tensor at address 140724603457540 (4-byte aligned).
\<close>

definition example_tensor_input :: FusionInput where
  "example_tensor_input =
     \<lparr>val = 0, is_TensorView = True, isCpuScalar = False, data = 139637976727600,
      alloc_size = [4, 6], alloc_stride = [12, 2], dtype_size = 2\<rparr>"

definition example_cpu_scalar_input :: FusionInput where
  "example_cpu_scalar_input =
     \<lparr>val = 1, is_TensorView = True, isCpuScalar = True, data = 140724603457540,
      alloc_size = [], alloc_stride = [], dtype_size = 4\<rparr>"

definition example_runtime_info :: SchedulerRuntimeInfo where
  "example_runtime_info =
     \<lparr>index_type = PrimDataType_Int32, input_ptrs = [0 \<mapsto> 139637976727600],
      input_discontig_strides = [0 \<mapsto> [4]], alignment_map = Map.empty\<rparr>"

section \<open>Scheduler registry (csrc/scheduler/registry.cpp, SchedulerEntry)\<close>

text \<open>The scheduler kinds that \<^verbatim>\<open>canSchedule\<close> and \<^verbatim>\<open>makeEntry\<close> switch over.\<close>

datatype ScheduleHeuristic =
  NoOp | PointWise | Reduction | InnerPersistent | OuterPersistent | InnerOuterPersistent |
  Transpose | Matmul | ExprEval

text \<open>
  What \<^verbatim>\<open>checkCanSchedule\<close> asks of a fusion; the four queries
  (\<^verbatim>\<open>ir_utils::hasOpsOfType\<close>, \<^verbatim>\<open>registry_utils::isConnectedFusionGraph\<close>,
  \<^verbatim>\<open>IterDomainGraph::hasSelfMapping\<close>) are not among the sources, and a fusion is given by
  their answers.
\<close>

record Fusion =
  hasOpsOfType_SdpaFwdOp_SdpaBwdOp :: bool
  hasOpsOfType_MatmulOp_LinearOp_MmaOp :: bool
  isConnectedFusionGraph :: bool
  hasSelfMapping :: bool

text \<open>A pre-recorded data cache; \<^verbatim>\<open>nullptr\<close> is \<open>None\<close>.\<close>

datatype HeuristicSummary = HeuristicSummary ScheduleHeuristic

text \<open>
  The two static members every scheduler class has. The classes themselves are not among
  the sources (the pointwise one apart), so the registry is a parameter: it gives, for each
  kind, the gates of the class whose \<^verbatim>\<open>heuristicType()\<close> is that kind.
\<close>

record SchedulerType =
  canScheduleCompileTime :: "Fusion \<Rightarrow> bool"
  canScheduleRunTime :: "Fusion \<Rightarrow> SchedulerRuntimeInfo \<Rightarrow> HeuristicSummary option \<Rightarrow> bool"

type_synonym registry = "ScheduleHeuristic \<Rightarrow> SchedulerType"

definition checkCanSchedule ::
  "registry \<Rightarrow> ScheduleHeuristic \<Rightarrow> Fusion \<Rightarrow> SchedulerRuntimeInfo \<Rightarrow>
   HeuristicSummary option \<Rightarrow> error + bool"
where
  "checkCanSchedule reg sh fusion runtime_info data_cache =
     (if \<not> (sh \<noteq> ExprEval) then Inl NVF_ERROR
      else if data_cache = None then
        (if hasOpsOfType_SdpaFwdOp_SdpaBwdOp fusion then Inr False
         else if sh \<noteq> Matmul \<and> hasOpsOfType_MatmulOp_LinearOp_MmaOp fusion then Inr False
         else if \<not> isConnectedFusionGraph fusion then Inr False
         else if hasSelfMapping fusion then Inr False
         else if \<not> canScheduleCompileTime (reg sh) fusion then Inr False
         else Inr (canScheduleRunTime (reg sh) fusion runtime_info data_cache))
      else Inr (canScheduleRunTime (reg sh) fusion runtime_info data_cache))"

text \<open>
  The dispatcher. The \<^verbatim>\<open>default\<close> branch of the switch ("unreachable") has no kind
  left to match.
\<close>

definition canSchedule ::
  "registry \<Rightarrow> ScheduleHeuristic \<Rightarrow> Fusion \<Rightarrow> SchedulerRuntimeInfo \<Rightarrow>
   HeuristicSummary option \<Rightarrow> error + bool"
where
  "canSchedule reg sh fusion runtime_info data_cache =
     (case sh of
        NoOp \<Rightarrow> checkCanSchedule reg NoOp fusion runtime_info data_cache
      | PointWise \<Rightarrow> checkCanSchedule reg PointWise fusion runtime_info data_cache
      | Reduction \<Rightarrow> checkCanSchedule reg Reduction fusion runtime_info data_cache
      | InnerPersistent \<Rightarrow> checkCanSchedule reg InnerPersistent fusion runtime_info data_cache
      | OuterPersistent \<Rightarrow> checkCanSchedule reg OuterPersistent fusion runtime_info data_cache
      | InnerOuterPersistent \<Rightarrow>
          checkCanSchedule reg InnerOuterPersistent fusion runtime_info data_cache
      | Transpose \<Rightarrow> checkCanSchedule reg Transpose fusion runtime_info data_cache
      | Matmul \<Rightarrow> checkCanSchedule reg Matmul fusion runtime_info data_cache
      | ExprEval \<Rightarrow> Inr (canScheduleCompileTime (reg ExprEval) fusion))"

text \<open>
  Modelled from the spec: \<^verbatim>\<open>all_heuristics_in_priority_order\<close> is declared in a header
  that is not among the sources; the spec gives the order as ExprEval, NoOp, Matmul,
  Transpose, InnerPersistent, OuterPersistent, InnerOuterPersistent, Reduction, PointWise.
\<close>

definition all_heuristics_in_priority_order :: "ScheduleHeuristic list" where
  "all_heuristics_in_priority_order =
     [ExprEval, NoOp, Matmul, Transpose, InnerPersistent, OuterPersistent,
      InnerOuterPersistent, Reduction, PointWise]"

text \<open>
  "Simply loop through the list as baseline strategy": \<^verbatim>\<open>canSchedule\<close> is called
  without a data cache, and an error it raises ends the loop.
\<close>

fun proposeHeuristics_loop ::
  "registry \<Rightarrow> Fusion \<Rightarrow> SchedulerRuntimeInfo \<Rightarrow> ScheduleHeuristic list \<Rightarrow>
   error + ScheduleHeuristic option"
where
  "proposeHeuristics_loop reg fusion runtime_info [] = Inr None"
| "proposeHeuristics_loop reg fusion runtime_info (sh # shs) =
     (case canSchedule reg sh fusion runtime_info None of
        Inl e \<Rightarrow> Inl e
      | Inr accepted \<Rightarrow>
          if accepted then Inr (Some sh)
          else proposeHeuristics_loop reg fusion runtime_info shs)"

definition proposeHeuristics ::
  "registry \<Rightarrow> Fusion \<Rightarrow> SchedulerRuntimeInfo \<Rightarrow> error + ScheduleHeuristic option"
where
  "proposeHeuristics reg fusion runtime_info =
     proposeHeuristics_loop reg fusion runtime_info all_heuristics_in_priority_order"

text \<open>
  The early rejections of \<^verbatim>\<open>checkCanSchedule\<close>, which come before the gates of the
  scheduler: a fusion passes them for a kind if none of the four fires.
\<close>

definition passes_early_checks :: "ScheduleHeuristic \<Rightarrow> Fusion \<Rightarrow> bool" where
  "passes_early_checks sh fusion \<longleftrightarrow>
     \<not> hasOpsOfType_SdpaFwdOp_SdpaBwdOp fusion \<and>
     (sh = Matmul \<or> \<not> hasOpsOfType_MatmulOp_LinearOp_MmaOp fusion) \<and>
     isConnectedFusionGraph fusion \<and> \<not> hasSelfMapping fusion"

text \<open>
  What makes \<^verbatim>\<open>canSchedule\<close> accept without a data cache: for the expression
  evaluator the compile-time gate alone; for every other kind the early checks and both
  gates.
\<close>

definition accepts ::
  "registry \<Rightarrow> ScheduleHeuristic \<Rightarrow> Fusion \<Rightarrow> SchedulerRuntimeInfo \<Rightarrow> bool"
where
  "accepts reg sh fusion runtime_info \<longleftrightarrow>
     (if sh = ExprEval then canScheduleCompileTime (reg ExprEval) fusion
      else passes_early_checks sh fusion \<and> canScheduleCompileTime (reg sh) fusion \<and>
           canScheduleRunTime (reg sh) fusion runtime_info None)"

text \<open>Both gates of a scheduler, as its class answers them.\<close>

definition both_gates ::
  "registry \<Rightarrow> ScheduleHeuristic \<Rightarrow> Fusion \<Rightarrow> SchedulerRuntimeInfo \<Rightarrow> bool"
where
  "both_gates reg sh fusion runtime_info \<longleftrightarrow>
     canScheduleCompileTime (reg sh) fusion \<and>
     canScheduleRunTime (reg sh) fusion runtime_info None"

text \<open>
  Example registries and fusions: every scheduler but the expression evaluator accepts
  at both gates; the expression evaluator accepts at compile time.
\<close>

definition example_registry :: registry where
  "example_registry sh =
     \<lparr>canScheduleCompileTime = (\<lambda>fusion. sh \<noteq> ExprEval),
      canScheduleRunTime = (\<lambda>fusion runtime_info data_cache. True)\<rparr>"

definition example_expr_eval_registry :: registry where
  "example_expr_eval_registry sh =
     \<lparr>canScheduleCompileTime = (\<lambda>fusion. sh = ExprEval),
      canScheduleRunTime = (\<lambda>fusion runtime_info data_cache. True)\<rparr>"

definition example_disconnected_fusion :: Fusion where
  "example_disconnected_fusion =
     \<lparr>hasOpsOfType_SdpaFwdOp_SdpaBwdOp = False, hasOpsOfType_MatmulOp_LinearOp_MmaOp = False,
      isConnectedFusionGraph = False, hasSelfMapping = False\<rparr>"

definition example_pointwise_fusion :: Fusion where
  "example_pointwise_fusion =
     \<lparr>hasOpsOfType_SdpaFwdOp_SdpaBwdOp = False, hasOpsOfType_MatmulOp_LinearOp_MmaOp = False,
      isConnectedFusionGraph = True, hasSelfMapping = False\<rparr>"

definition example_matmul_fusion :: Fusion where
  "example_matmul_fusion =
     \<lparr>hasOpsOfType_SdpaFwdOp_SdpaBwdOp = False, hasOpsOfType_MatmulOp_LinearOp_MmaOp = True,
      isConnectedFusionGraph = True, hasSelfMapping = False\<rparr>"

definition example_sdpa_fusion :: Fusion where
  "example_sdpa_fusion =
     \<lparr>hasOpsOfType_SdpaFwdOp_SdpaBwdOp = True, hasOpsOfType_MatmulOp_LinearOp_MmaOp = False,
      isConnectedFusionGraph = True, hasSelfMapping = False\<rparr>"

section \<open>Allocation placement (device_lower/utils.cpp, getAllocInformation)\<close>

text \<open>
  Modelled from the spec: the enumerations \<^verbatim>\<open>ParallelType\<close> and \<^verbatim>\<open>MemoryType\<close> are
  declared in a header that is not among the sources; their values are the ones the
  spec's data model lists. \<^verbatim>\<open>getAllocInformation\<close> tests for \<open>Unroll\<close>,
  \<open>Unswitch\<close>, \<open>Shared\<close> and \<open>Global\<close> only.
\<close>

datatype ParallelType =
  Serial | TIDx | TIDy | TIDz | BIDx | BIDy | BIDz | Unroll | Unswitch | Vectorize |
  MisalignedVectorize | Group

datatype MemoryType = Global | Shared | Local | Tensor

text \<open>An iteration domain, with the address that identifies it.\<close>

record IterDomain =
  id_addr :: nat
  isReduction :: bool
  getParallelType :: ParallelType

record ForLoop =
  fl_addr :: nat
  iter_domain :: IterDomain

text \<open>
  A tensor view: \<^verbatim>\<open>axis(i)\<close> reads the loop domain. A compute-at position is a loop
  depth, a count of axes.
\<close>

record TensorView =
  tv_name :: nat
  getComputeAtPosition :: nat
  loop_domain :: "IterDomain list"
  getMemoryType :: MemoryType
  isCircularBuffered :: bool

text \<open>\<^verbatim>\<open>tv->axis(pos)\<close> fails on a position outside the loop domain.\<close>

definition axis :: "TensorView \<Rightarrow> nat \<Rightarrow> error + IterDomain" where
  "axis tv pos = (if pos < length (loop_domain tv) then Inr (loop_domain tv ! pos)
                  else Inl NVF_ERROR)"

text \<open>
  What \<^verbatim>\<open>getAllocInformation\<close> reads from the lowering in progress and the current
  fusion: the terminating outputs (by name), the circular-buffer axis of a tensor, and the
  permissive mapping of the compute-at map.
\<close>

record GpuLower =
  getTerminatingOutputs :: "nat list"
  getCircularBufferAxis :: "TensorView \<Rightarrow> IterDomain option"
  areMapped_PERMISSIVE :: "IterDomain \<Rightarrow> IterDomain \<Rightarrow> bool"

text \<open>
  \<^verbatim>\<open>BasicAllocInfo\<close> (lower_utils.h); the allocation pass keeps an "expanded version"
  of it whose members start as \<^verbatim>\<open>nullptr\<close> and \<^verbatim>\<open>alloc_pos = 0\<close>.
\<close>

record BasicAllocInfo =
  init_for_loop :: "ForLoop option"
  alloc_for_loop :: "ForLoop option"
  alloc_pos :: nat

definition BasicAllocInfo_init :: BasicAllocInfo where
  "BasicAllocInfo_init = \<lparr>init_for_loop = None, alloc_for_loop = None, alloc_pos = 0\<rparr>"

text \<open>
  The loop over \<^verbatim>\<open>for_loops\<close>, with the local \<^verbatim>\<open>outer_alloc_found\<close>; every
  \<^verbatim>\<open>break\<close> returns the info as it stands.
\<close>

fun getAllocInformation_loop ::
  "GpuLower \<Rightarrow> TensorView \<Rightarrow> (IterDomain \<rightharpoonup> IterDomain) \<Rightarrow> bool \<Rightarrow> ForLoop list \<Rightarrow>
   BasicAllocInfo \<Rightarrow> bool \<Rightarrow> error + BasicAllocInfo"
where
  "getAllocInformation_loop gpu_lower tv id_map use_id_map [] info outer_alloc_found = Inr info"
| "getAllocInformation_loop gpu_lower tv id_map use_id_map (fl # fls) info outer_alloc_found =
     (if alloc_pos info = getComputeAtPosition tv then Inr info
      else
        (case axis tv (alloc_pos info) of
           Inl e \<Rightarrow> Inl e
         | Inr ax \<Rightarrow>
             if isReduction ax then
               (if tv_name tv \<notin> set (getTerminatingOutputs gpu_lower) then Inl NVF_ERROR
                else Inr info)
             else
               (let fl_id = iter_domain fl in
                if getParallelType fl_id = Unroll then Inr info
                else
                  (let found1 = (outer_alloc_found \<or>
                         (getParallelType fl_id = Unswitch \<and> getMemoryType tv = Shared));
                       found2 = (found1 \<or> getMemoryType tv = Global);
                       found3 = (found2 \<or>
                         (isCircularBuffered tv \<and>
                          Some ax = getCircularBufferAxis gpu_lower tv));
                       local_id =
                         (if use_id_map then
                            (case id_map ax of Some mapped \<Rightarrow> mapped | None \<Rightarrow> ax)
                          else ax);
                       info1 =
                         (if areMapped_PERMISSIVE gpu_lower local_id fl_id
                          then info\<lparr>alloc_pos := alloc_pos info + 1\<rparr> else info);
                       info2 = info1\<lparr>init_for_loop := Some fl\<rparr>;
                       info3 =
                         (if \<not> found3 then info2\<lparr>alloc_for_loop := Some fl\<rparr> else info2)
                   in getAllocInformation_loop gpu_lower tv id_map use_id_map fls info3 found3))))"

definition getAllocInformation ::
  "GpuLower \<Rightarrow> TensorView \<Rightarrow> ForLoop list \<Rightarrow> (IterDomain \<rightharpoonup> IterDomain) \<Rightarrow> bool \<Rightarrow>
   error + BasicAllocInfo"
where
  "getAllocInformation gpu_lower tv for_loops id_map use_id_map =
     getAllocInformation_loop gpu_lower tv id_map use_id_map for_loops BasicAllocInfo_init False"

text \<open>
  A tensor with three serial axes inlined at position 2, inside three loops over the same
  iteration domains; two iteration domains are mapped when they are the same one.
\<close>

definition example_id :: "nat \<Rightarrow> IterDomain" where
  "example_id n = \<lparr>id_addr = n, isReduction = False, getParallelType = Serial\<rparr>"

definition example_tv :: TensorView where
  "example_tv =
     \<lparr>tv_name = 1, getComputeAtPosition = 2,
      loop_domain = [example_id 0, example_id 1, example_id 2],
      getMemoryType = Local, isCircularBuffered = False\<rparr>"

definition example_for_loops :: "ForLoop list" where
  "example_for_loops =
     [\<lparr>fl_addr = 10, iter_domain = example_id 0\<rparr>,
      \<lparr>fl_addr = 11, iter_domain = example_id 1\<rparr>,
      \<lparr>fl_addr = 12, iter_domain = example_id 2\<rparr>]"

definition example_gpu_lower :: GpuLower where
  "example_gpu_lower =
     \<lparr>getTerminatingOutputs = [1], getCircularBufferAxis = (\<lambda>tv. None),
      areMapped_PERMISSIVE = (\<lambda>a b. id_addr a = id_addr b)\<rparr>"

section \<open>Pointwise scheduler (scheduler/pointwise.cpp)\<close>

subsection \<open>Reference tensor\<close>

text \<open>
  A fusion output as \<^verbatim>\<open>DomainMap::findReferenceTensorView\<close> sees it: whether it is a
  \<^verbatim>\<open>TensorView\<close> (\<^verbatim>\<open>ir_utils::filterByType\<close>), what \<^verbatim>\<open>isValidReference\<close> and
  \<^verbatim>\<open>isFusionInput\<close> answer, the size of its logical domain, and
  \<^verbatim>\<open>pointwise_utils::nRootDims\<close>, a count of dimensions. The three functions are not
  among the sources.
\<close>

record FusionOutput =
  out_is_TensorView :: bool
  isValidReference :: bool
  isFusionInput :: bool
  getLogicalDomain_size :: nat
  nRootDims :: nat

definition hasMinimumSize :: "FusionOutput \<Rightarrow> int \<Rightarrow> bool" where
  "hasMinimumSize tv num_axes \<longleftrightarrow> num_axes = 0 \<or> int (getLogicalDomain_size tv) > num_axes"

text \<open>
  The loop over the outputs. A tensor is named by its position in
  \<^verbatim>\<open>fusion_->outputs()\<close>; \<open>i\<close> is the position of the output at the head of the list.
\<close>

fun findReferenceTensorView_loop ::
  "FusionOutput list \<Rightarrow> nat \<Rightarrow> int \<Rightarrow> nat option \<Rightarrow> int \<Rightarrow> nat option"
where
  "findReferenceTensorView_loop [] i minimum_num_axes result max_dims = result"
| "findReferenceTensorView_loop (output_tv # outs) i minimum_num_axes result max_dims =
     (if out_is_TensorView output_tv \<and>
         (isValidReference output_tv \<and> hasMinimumSize output_tv minimum_num_axes \<and>
          \<not> isFusionInput output_tv) \<and>
         int (nRootDims output_tv) > max_dims
      then findReferenceTensorView_loop outs (i + 1) minimum_num_axes (Some i)
             (int (nRootDims output_tv))
      else findReferenceTensorView_loop outs (i + 1) minimum_num_axes result max_dims)"

definition findReferenceTensorView :: "FusionOutput list \<Rightarrow> int \<Rightarrow> nat option" where
  "findReferenceTensorView outputs minimum_num_axes =
     findReferenceTensorView_loop outputs 0 minimum_num_axes None (- 1)"

text \<open>The outputs the loop considers at all.\<close>

definition eligible :: "int \<Rightarrow> FusionOutput \<Rightarrow> bool" where
  "eligible minimum_num_axes tv \<longleftrightarrow>
     out_is_TensorView tv \<and> isValidReference tv \<and> hasMinimumSize tv minimum_num_axes \<and>
     \<not> isFusionInput tv"

text \<open>
  Two outputs with two dimensions each; the first is a fusion input that is returned as
  an output as well.
\<close>

definition example_outputs :: "FusionOutput list" where
  "example_outputs =
     [\<lparr>out_is_TensorView = True, isValidReference = True, isFusionInput = True,
       getLogicalDomain_size = 2, nRootDims = 2\<rparr>,
      \<lparr>out_is_TensorView = True, isValidReference = True, isFusionInput = False,
       getLogicalDomain_size = 2, nRootDims = 2\<rparr>]"

text \<open>Three computed outputs with 1, 3 and 3 dimensions.\<close>

definition example_outputs_tie :: "FusionOutput list" where
  "example_outputs_tie =
     [\<lparr>out_is_TensorView = True, isValidReference = True, isFusionInput = False,
       getLogicalDomain_size = 1, nRootDims = 1\<rparr>,
      \<lparr>out_is_TensorView = True, isValidReference = True, isFusionInput = False,
       getLogicalDomain_size = 3, nRootDims = 3\<rparr>,
      \<lparr>out_is_TensorView = True, isValidReference = True, isFusionInput = False,
       getLogicalDomain_size = 3, nRootDims = 3\<rparr>]"

subsection \<open>Heuristics\<close>

text \<open>
  The heuristics compute with \<^verbatim>\<open>int64_t\<close>: the model uses 64-bit words, so sums and
  products wrap around, and reads them as signed values (\<open>sint\<close>) wherever the source
  compares or divides. \<open>cdiv\<close> is the quotient of the source on the signed values,
  which truncates towards zero; a division by zero, which is undefined in the source,
  gives 0. \<^verbatim>\<open>ceilDiv\<close> is the one of csrc/utils.h.
\<close>

definition cdiv :: "int \<Rightarrow> int \<Rightarrow> int" where
  "cdiv dividend divisor =
     (if (dividend < 0) = (divisor < 0) then \<bar>dividend\<bar> div \<bar>divisor\<bar>
      else - (\<bar>dividend\<bar> div \<bar>divisor\<bar>))"

definition div64 :: "int64_t \<Rightarrow> int64_t \<Rightarrow> int64_t" where
  "div64 dividend divisor = word_of_int (cdiv (sint dividend) (sint divisor))"

definition ceilDiv :: "int64_t \<Rightarrow> int64_t \<Rightarrow> int64_t" where
  "ceilDiv dividend divisor = div64 (dividend + divisor - 1) divisor"

text \<open>\<^verbatim>\<open>std::min\<close> and \<^verbatim>\<open>std::max\<close> on \<^verbatim>\<open>int64_t\<close>.\<close>

definition min64 :: "int64_t \<Rightarrow> int64_t \<Rightarrow> int64_t" where
  "min64 a b = (if sint b < sint a then b else a)"

definition max64 :: "int64_t \<Rightarrow> int64_t \<Rightarrow> int64_t" where
  "max64 a b = (if sint a < sint b then b else a)"

text \<open>The right shift by 2 of a signed 64-bit value: the division by 4 that rounds down.\<close>

definition shift_right_2 :: "int64_t \<Rightarrow> int64_t" where
  "shift_right_2 x = word_of_int (sint x div 4)"

definition kThreadX :: int64_t where
  "kThreadX = 128"

definition int64_max :: int64_t where
  "int64_max = 9223372036854775807"

text \<open>
  The device properties read through \<^verbatim>\<open>at::cuda::getCurrentDeviceProperties()\<close>:
  \<^verbatim>\<open>int\<close> members, given here as the 64-bit values that the source converts them to
  where it computes with them.
\<close>

record DeviceProperties =
  multiProcessorCount :: int64_t
  warpSize :: int64_t
  l2CacheSize :: int64_t

record BroadcastMultiple =
  lhs_multiple :: int64_t
  rhs_multiple :: int64_t

text \<open>
  What \<^verbatim>\<open>getPointwiseHeuristics\<close> obtains from the fusion, the runtime info and the
  helpers that are not among the sources: the inferred extents of the reference tensor's
  dimensions, whether its loop domain is empty once devices, reductions and broadcasts
  are dropped, the data type sizes of the inputs and outputs, the number of vectorizable
  inputs and outputs, \<^verbatim>\<open>scheduler_utils::lastPow2\<close>, the broadcast byte multiples,
  \<^verbatim>\<open>scheduler_utils::breakIsDisjoint\<close> on the view disjoint sets, and
  \<^verbatim>\<open>vectorize_helper::getVectorizationFactor\<close> as a function of the break point.
\<close>

record PointwiseInputs =
  inferred_extents :: "int64_t option list"
  loop_domain_is_empty :: bool
  input_dtype_sizes :: "int64_t list"
  output_dtype_sizes :: "int64_t list"
  num_vectorizable_inputs_outputs :: int64_t
  lastPow2 :: "int64_t \<Rightarrow> int64_t"
  broadcast_byte_multiples :: "BroadcastMultiple list"
  breakIsDisjoint :: "nat \<Rightarrow> bool"
  getVectorizationFactor :: "32 word \<Rightarrow> int64_t"
  device :: DeviceProperties

text \<open>
  The members of \<^verbatim>\<open>PointwiseParams\<close> that the heuristics write; \<open>lparams_TIDx\<close> and
  \<open>lparams_TIDy\<close> are the launch parameters bound, \<open>None\<close> when unbound. The break
  point is an \<^verbatim>\<open>int\<close>.
\<close>

record PointwiseParams =
  vectorize :: bool
  params_break_point :: "32 word"
  split_block :: bool
  split_grid_y_dim :: bool
  params_flip_grid_binding :: bool
  unroll_factor :: int64_t
  lparams_TIDx :: "int64_t option"
  lparams_TIDy :: "int64_t option"

text \<open>The local variables that the search for the break point assigns.\<close>

record BreakPointSearch =
  break_point :: "32 word"
  flip_grid_binding :: bool
  right_elem_count :: int64_t
  bdimx :: int64_t
  bdimy :: int64_t
  gdim_left :: int64_t
  gdim_right :: int64_t
  min_total_transfer :: int64_t

definition BreakPointSearch_init :: BreakPointSearch where
  "BreakPointSearch_init =
     \<lparr>break_point = 0, flip_grid_binding = False, right_elem_count = 0, bdimx = kThreadX,
      bdimy = 1, gdim_left = 1, gdim_right = 1, min_total_transfer = int64_max\<rparr>"

text \<open>\<^verbatim>\<open>elem_counts\<close> and \<^verbatim>\<open>n_elems\<close>; an extent that cannot be inferred is an error.\<close>

fun infer_elem_counts :: "int64_t option list \<Rightarrow> error + int64_t list" where
  "infer_elem_counts [] = Inr []"
| "infer_elem_counts (None # vs) = Inl NVF_ERROR"
| "infer_elem_counts (Some v # vs) =
     (case infer_elem_counts vs of Inl e \<Rightarrow> Inl e | Inr cs \<Rightarrow> Inr (v # cs))"

definition n_elems_of :: "int64_t list \<Rightarrow> int64_t" where
  "n_elems_of elem_counts = fold (\<lambda>c n. n * c) elem_counts 1"

definition max_input_dtype_size_of :: "PointwiseInputs \<Rightarrow> int64_t" where
  "max_input_dtype_size_of inp = fold (\<lambda>sz m. max64 m sz) (input_dtype_sizes inp) 2"

definition dtype_sum_of :: "PointwiseInputs \<Rightarrow> int64_t" where
  "dtype_sum_of inp =
     fold (\<lambda>sz s. s + sz) (output_dtype_sizes inp) (fold (\<lambda>sz s. s + sz) (input_dtype_sizes inp) 0)"

text \<open>
  \<^verbatim>\<open>max_unroll_factor\<close>, with "don't unroll at the cost of getting a full wave on the
  GPU".
\<close>

definition max_unroll_factor_of :: "PointwiseInputs \<Rightarrow> int64_t \<Rightarrow> int64_t" where
  "max_unroll_factor_of inp n_elems =
     (let max_unroll_factor =
            ceilDiv (div64 16 (max_input_dtype_size_of inp))
              (max64 (shift_right_2 (lastPow2 inp (num_vectorizable_inputs_outputs inp))) 1)
      in if sint n_elems < sint (multiProcessorCount (device inp) * kThreadX) \<and>
            sint max_unroll_factor > 1
         then min64 max_unroll_factor
                (ceilDiv n_elems (multiProcessorCount (device inp) * kThreadX))
         else max_unroll_factor)"

definition transfer_size_1d_of :: "int64_t list \<Rightarrow> int64_t \<Rightarrow> int64_t" where
  "transfer_size_1d_of elem_counts dtype_sum =
     fold (\<lambda>c t. t * c * dtype_sum) elem_counts 1"

text \<open>The three inner loops of a candidate break point \<open>i\<close>.\<close>

definition cur_right_elem_count_at :: "int64_t list \<Rightarrow> nat \<Rightarrow> int64_t" where
  "cur_right_elem_count_at elem_counts i = fold (\<lambda>c n. n * c) (drop i elem_counts) 1"

definition left_transfer_size_at :: "int64_t list \<Rightarrow> int64_t \<Rightarrow> nat \<Rightarrow> int64_t" where
  "left_transfer_size_at elem_counts lhs_byte_multiple i =
     fold (\<lambda>c t. t * c * lhs_byte_multiple) (take i elem_counts) 1"

definition right_transfer_size_at :: "int64_t list \<Rightarrow> int64_t \<Rightarrow> nat \<Rightarrow> int64_t" where
  "right_transfer_size_at elem_counts rhs_byte_multiple i =
     fold (\<lambda>c t. t * c * rhs_byte_multiple) (drop i elem_counts) 1"

text \<open>
  The body of the loop over \<^verbatim>\<open>break_point_i\<close>: each \<^verbatim>\<open>continue\<close> leaves the locals
  as they are; a candidate that passes all four tests is adopted ("Use this break point").
  The break point is stored through \<^verbatim>\<open>static_cast<int>\<close>.
\<close>

definition break_point_step ::
  "PointwiseInputs \<Rightarrow> int64_t list \<Rightarrow> int64_t \<Rightarrow> int64_t \<Rightarrow> int64_t \<Rightarrow>
   BreakPointSearch \<Rightarrow> nat \<Rightarrow> BreakPointSearch"
where
  "break_point_step inp elem_counts n_elems max_unroll_factor transfer_size_1d st break_point_i =
     (if \<not> breakIsDisjoint inp break_point_i then st
      else
        (let cur_right_elem_count = cur_right_elem_count_at elem_counts break_point_i;
             cur_left_elem_count = div64 n_elems cur_right_elem_count
         in if sint cur_left_elem_count \<le> 1 then st
            else
              (let lhs_byte_multiple =
                     lhs_multiple (broadcast_byte_multiples inp ! break_point_i);
                   rhs_byte_multiple =
                     rhs_multiple (broadcast_byte_multiples inp ! break_point_i);
                   right_transfer_size =
                     right_transfer_size_at elem_counts rhs_byte_multiple break_point_i;
                   cur_transfer_size =
                     left_transfer_size_at elem_counts lhs_byte_multiple break_point_i *
                     right_transfer_size
               in if sint cur_transfer_size \<ge> sint (min_total_transfer st) \<or>
                     sint (cur_transfer_size * 10) \<ge> sint (transfer_size_1d * 9) then st
                  else if sint (ceilDiv cur_right_elem_count max_unroll_factor)
                            \<le> sint (warpSize (device inp)) then st
                  else
                    (let flip =
                           (sint lhs_byte_multiple \<le> sint rhs_byte_multiple \<and>
                            sint (l2CacheSize (device inp)) < sint (right_transfer_size * 2));
                         bdimx' = min64 (ceilDiv cur_right_elem_count max_unroll_factor) kThreadX;
                         bdimy' =
                           (if sint cur_left_elem_count > sint (multiProcessorCount (device inp))
                            then div64 kThreadX bdimx' else 1);
                         remainder_left = ceilDiv cur_left_elem_count bdimy';
                         remainder_right =
                           ceilDiv cur_right_elem_count (bdimx' * max_unroll_factor)
                     in \<lparr>break_point = of_nat break_point_i, flip_grid_binding = flip,
                         right_elem_count = cur_right_elem_count, bdimx = bdimx',
                         bdimy = bdimy', gdim_left = remainder_left,
                         gdim_right = remainder_right,
                         min_total_transfer = cur_transfer_size\<rparr>))))"

text \<open>
  "Figure out break point position": the candidates are tried in order when there is
  enough parallelism, and not at all otherwise.
\<close>

definition find_break_point ::
  "PointwiseInputs \<Rightarrow> int64_t list \<Rightarrow> int64_t \<Rightarrow> int64_t \<Rightarrow> BreakPointSearch"
where
  "find_break_point inp elem_counts n_elems max_unroll_factor =
     (let transfer_size_1d = transfer_size_1d_of elem_counts (dtype_sum_of inp)
      in if sint (n_elems * 2) > sint (multiProcessorCount (device inp) * kThreadX)
         then fold (\<lambda>i st. break_point_step inp elem_counts n_elems max_unroll_factor
                             transfer_size_1d st i)
                [0 ..< length elem_counts] BreakPointSearch_init
         else BreakPointSearch_init)"


text \<open>
  \<^verbatim>\<open>getPointwiseHeuristics\<close>. \<open>params0\<close> is the freshly constructed
  \<^verbatim>\<open>PointwiseParams\<close>: its default member values are declared in a header that is not
  among the sources. The early return for a zero-dimensional or empty reference hands
  back such a fresh object.
\<close>

definition getPointwiseHeuristics ::
  "PointwiseInputs \<Rightarrow> PointwiseParams \<Rightarrow> error + PointwiseParams"
where
  "getPointwiseHeuristics inp params0 =
     (case infer_elem_counts (inferred_extents inp) of
        Inl e \<Rightarrow> Inl e
      | Inr elem_counts \<Rightarrow>
          (let n_elems = n_elems_of elem_counts
           in if loop_domain_is_empty inp \<or> n_elems = 0 then Inr params0
              else
                (let max_unroll_factor = max_unroll_factor_of inp n_elems
                 in if length (broadcast_byte_multiples inp) \<noteq> length elem_counts
                    then Inl NVF_ERROR
                    else
                      (let st = find_break_point inp elem_counts n_elems max_unroll_factor;
                           vectorize_factor =
                             min64 max_unroll_factor
                               (getVectorizationFactor inp (break_point st));
                           params1 =
                             (if vectorize_factor = 1
                              then params0\<lparr>vectorize := False, unroll_factor := max_unroll_factor\<rparr>
                              else params0\<lparr>vectorize := True, unroll_factor := vectorize_factor\<rparr>)
                       in if \<not> (sint (right_elem_count st) > 0 \<or> break_point st = 0)
                          then Inl NVF_ERROR
                          else if \<not> (\<not> (sint (bdimy st) > 1 \<and> sint (gdim_right st) > 1))
                          then Inl NVF_ERROR
                          else
                            (let params2 =
                                   params1\<lparr>params_break_point := break_point st,
                                           params_flip_grid_binding := flip_grid_binding st,
                                           split_block := (sint (bdimy st) > 1),
                                           lparams_TIDx := Some (bdimx st)\<rparr>;
                                 params3 =
                                   (if split_block params2
                                    then params2\<lparr>lparams_TIDy := Some (bdimy st)\<rparr>
                                    else params2);
                                 params4 =
                                   (if (flip_grid_binding st \<and> sint (gdim_right st) > 65535) \<or>
                                       (\<not> flip_grid_binding st \<and> sint (gdim_left st) > 65535)
                                    then params3\<lparr>split_grid_y_dim := True\<rparr>
                                    else params3)
                             in Inr params4)))))"

text \<open>
  Example: a reference tensor of shape 2 x 67108864 on a device with 108 multiprocessors,
  warps of 32 threads and 40 MiB of L2 cache; three 4-byte tensors, one of them
  vectorizable. At break point 1 the left side takes part with \<open>lhs\<close> bytes per element
  and the right side with \<open>rhs\<close>.
\<close>

definition example_params0 :: PointwiseParams where
  "example_params0 =
     \<lparr>vectorize = False, params_break_point = 0, split_block = False,
      split_grid_y_dim = False, params_flip_grid_binding = False, unroll_factor = 1,
      lparams_TIDx = None, lparams_TIDy = None\<rparr>"

definition example_device :: DeviceProperties where
  "example_device = \<lparr>multiProcessorCount = 108, warpSize = 32, l2CacheSize = 41943040\<rparr>"


text \<open>
  Two examples in which the 64-bit products wrap around. The first has eight dimensions
  of extent 16 and three 4-byte tensors: nine times the 1-D transfer size, \<open>192^8\<close>, is
  not a 64-bit value. The second has eight dimensions of extent 10 and twelve 4-byte
  tensors; at break point 1 the right-side transfer size is \<open>480^7\<close>, and twice that is
  not a 64-bit value.
\<close>

definition example_wrap_inputs_16 :: PointwiseInputs where
  "example_wrap_inputs_16 =
     \<lparr>inferred_extents = [Some 16, Some 16, Some 16, Some 16, Some 16, Some 16, Some 16, Some 16], loop_domain_is_empty = False,
      input_dtype_sizes = [4, 4], output_dtype_sizes = [4],
      num_vectorizable_inputs_outputs = 1, lastPow2 = (\<lambda>n. 1),
      broadcast_byte_multiples = replicate 8 \<lparr>lhs_multiple = 8, rhs_multiple = 4\<rparr>,
      breakIsDisjoint = (\<lambda>i. True), getVectorizationFactor = (\<lambda>break_point. 4),
      device = example_device\<rparr>"




section \<open>Index type: auxiliary facts\<close>

lemma most_positive_index_nonneg: "0 \<le> most_positive_index ds"
  by (induction ds rule: most_positive_index.induct) auto

lemma addDim_accumulates:
  assumes "0 \<le> sint (tensor_most_positive_index c)"
    and "sint sz > 1 \<longrightarrow> 0 \<le> sint stride"
    and "sint (tensor_most_positive_index c) +
           (if sint sz > 1 \<and> sint stride > 0 then (sint sz - 1) * sint stride else 0) < 2 ^ 63"
  shows "\<exists>c'. addDim c sz stride = Inr (getType c', c') \<and>
           sint (tensor_most_positive_index c') =
             sint (tensor_most_positive_index c) +
               (if sint sz > 1 \<and> sint stride > 0 then (sint sz - 1) * sint stride else 0)"
proof (cases "sint sz > 1 \<and> sint stride > 0")
  case False
  with assms(2) show ?thesis by (auto simp add: addDim_def)
next
  case True
  let ?p = "(sint sz - 1) * sint stride"
  from True have p0: "0 \<le> ?p" by simp
  from True assms(1,3) have plt: "?p < 2 ^ 63" by simp
  have szb: "sint sz < 2 ^ 63" "- (2 ^ 63) \<le> sint sz"
    using sint_lt[of sz] sint_ge[of sz] by simp_all
  have "sint (sz - 1) = signed_take_bit 63 (sint sz - 1)"
    by (simp add: sint_word_ariths)
  also have "\<dots> = sint sz - 1"
    using True szb by (intro signed_take_bit_int_eq_self) simp_all
  finally have s1: "sint (sz - 1) = sint sz - 1" .
  have "sint ((sz - 1) * stride) = signed_take_bit 63 (sint (sz - 1) * sint stride)"
    by (simp add: sint_word_ariths)
  also have "\<dots> = signed_take_bit 63 ?p"
    by (simp only: s1)
  also have "\<dots> = ?p"
  proof (rule signed_take_bit_int_eq_self)
    from p0 show "- (2 ^ 63) \<le> ?p" by simp
    from plt show "?p < 2 ^ 63" .
  qed
  finally have sp: "sint ((sz - 1) * stride) = ?p" .
  have "sint (tensor_most_positive_index c + (sz - 1) * stride)
      = signed_take_bit 63 (sint (tensor_most_positive_index c) + sint ((sz - 1) * stride))"
    by (simp add: sint_word_ariths)
  also have "\<dots> = signed_take_bit 63 (sint (tensor_most_positive_index c) + ?p)"
    by (simp only: sp)
  also have "\<dots> = sint (tensor_most_positive_index c) + ?p"
  proof (rule signed_take_bit_int_eq_self)
    from assms(1) p0 have "0 \<le> sint (tensor_most_positive_index c) + ?p" by linarith
    then show "- (2 ^ 63) \<le> sint (tensor_most_positive_index c) + ?p" by simp
    from assms(3) True show "sint (tensor_most_positive_index c) + ?p < 2 ^ 63" by simp
  qed
  finally have sa: "sint (tensor_most_positive_index c + (sz - 1) * stride)
      = sint (tensor_most_positive_index c) + ?p" .
  from True sa show ?thesis
    by (simp add: addDim_def Let_def)
qed


lemma addDims_accumulates:
  assumes "0 \<le> sint (tensor_most_positive_index c)"
    and "\<forall>(sz, stride) \<in> set ds. sint sz > 1 \<longrightarrow> 0 \<le> sint stride"
    and "sint (tensor_most_positive_index c) + most_positive_index ds < 2 ^ 63"
  shows "\<exists>c'. addDims c ds = Inr c' \<and>
           sint (tensor_most_positive_index c') =
             sint (tensor_most_positive_index c) + most_positive_index ds"
  using assms
proof (induction ds arbitrary: c)
  case Nil
  then show ?case by simp
next
  case (Cons d ds)
  obtain sz stride where d: "d = (sz, stride)" by (cases d)
  let ?t = "if sint sz > 1 \<and> sint stride > 0 then (sint sz - 1) * sint stride else 0"
  have t0: "0 \<le> ?t" by simp
  have r0: "0 \<le> most_positive_index ds" by (rule most_positive_index_nonneg)
  from Cons.prems(3) d have tot: "sint (tensor_most_positive_index c) + ?t + most_positive_index ds < 2 ^ 63"
    by (simp add: add.assoc)
  with r0 have fit: "sint (tensor_most_positive_index c) + ?t < 2 ^ 63" by linarith
  from Cons.prems(2) d have st: "sint sz > 1 \<longrightarrow> 0 \<le> sint stride" by simp
  from addDim_accumulates[OF Cons.prems(1) st fit]
  obtain c1 where c1: "addDim c sz stride = Inr (getType c1, c1)"
    and v1: "sint (tensor_most_positive_index c1) = sint (tensor_most_positive_index c) + ?t"
    by blast
  from v1 t0 Cons.prems(1) have p1: "0 \<le> sint (tensor_most_positive_index c1)" by linarith
  from Cons.prems(2) have rest: "\<forall>(sz, stride) \<in> set ds. sint sz > 1 \<longrightarrow> 0 \<le> sint stride"
    by simp
  from tot v1 have fit1: "sint (tensor_most_positive_index c1) + most_positive_index ds < 2 ^ 63"
    by simp
  from Cons.IH[OF p1 rest fit1] obtain c' where
    "addDims c1 ds = Inr c'"
    "sint (tensor_most_positive_index c') = sint (tensor_most_positive_index c1) + most_positive_index ds"
    by blast
  with c1 v1 d show ?case by (simp add: add.assoc)
qed

section \<open>Alignment: auxiliary facts\<close>


lemma computeAlignmentSize_closed:
  "computeAlignmentSize p =
     (if p mod 2 = 0 then if p mod 4 = 0 then if p mod 8 = 0 then if p mod 16 = 0 then 16
      else 8 else 4 else 2 else 1)"
  unfolding computeAlignmentSize_def
  apply (subst computeAlignmentSize_loop.simps)
  apply (subst computeAlignmentSize_loop.simps)
  apply (subst computeAlignmentSize_loop.simps)
  apply (subst computeAlignmentSize_loop.simps)
  apply (subst computeAlignmentSize_loop.simps)
  apply (simp add: max_alignment_size_in_byte_def)
  done

lemma word_mod_zero_iff: "(p mod n = 0) = (unat n dvd unat p)" for p n :: size_t
  by (metis dvd_eq_mod_eq_0 unat_eq_zero unat_mod)

lemma computeAlignmentSize_range:
  "unat (computeAlignmentSize p) \<in> {1, 2, 4, 8, 16}"
  by (simp add: computeAlignmentSize_closed)

lemma computeAlignmentSize_dvd:
  "unat (computeAlignmentSize p) dvd unat p"
  by (simp add: computeAlignmentSize_closed word_mod_zero_iff)

lemma computeAlignmentSize_largest:
  assumes "a \<in> {1, 2, 4, 8, 16}" and "a dvd unat p"
  shows "a \<le> unat (computeAlignmentSize p)"
proof -
  have d: "(16::nat) dvd n \<Longrightarrow> 8 dvd n" "(8::nat) dvd n \<Longrightarrow> 4 dvd n" "(4::nat) dvd n \<Longrightarrow> 2 dvd n" for n
    by presburger+
  show ?thesis
    using assms d[of "unat p"]
    by (auto simp add: computeAlignmentSize_closed word_mod_zero_iff)
qed

lemma fold_min_computeAlignmentSize:
  "fold (\<lambda>stride a. min a (computeAlignmentSize stride)) strides a0
     = Min (insert a0 (computeAlignmentSize ` set strides))"
proof (induction strides arbitrary: a0)
  case Nil
  then show ?case by simp
next
  case (Cons x xs)
  have "Min (insert (min a0 (computeAlignmentSize x)) (computeAlignmentSize ` set xs))
      = Min (insert a0 (insert (computeAlignmentSize x) (computeAlignmentSize ` set xs)))"
    by (cases "set xs = {}") (simp_all add: min.assoc)
  with Cons show ?case by simp
qed


lemma bind_input_alignment_map:
  "bind_input s inp = Inr s' \<Longrightarrow> alignment_map s' = alignment_map s"
  by (auto simp add: bind_input_def split: if_splits)

lemma bind_input_other:
  "bind_input s inp = Inr s' \<Longrightarrow> v \<noteq> val inp \<Longrightarrow>
     input_ptrs s' v = input_ptrs s v \<and> input_discontig_strides s' v = input_discontig_strides s v"
  by (auto simp add: bind_input_def split: if_splits)

lemma bind_input_recorded:
  "bind_input s inp = Inr s' \<Longrightarrow> is_TensorView inp \<Longrightarrow> \<not> isCpuScalar inp \<Longrightarrow>
     input_ptrs s' (val inp) = Some (data inp) \<and>
     input_discontig_strides s' (val inp) = Some (discontig_strides inp)"
  by (auto simp add: bind_input_def split: if_splits)

lemma bind_inputs_alignment_map:
  "bind_inputs s inps = Inr s' \<Longrightarrow> alignment_map s' = alignment_map s"
proof (induction inps arbitrary: s)
  case Nil
  then show ?case by simp
next
  case (Cons inp inps)
  then show ?case
    by (auto split: sum.splits dest: bind_input_alignment_map)
qed

lemma bind_inputs_other:
  "bind_inputs s inps = Inr s' \<Longrightarrow> v \<notin> val ` set inps \<Longrightarrow>
     input_ptrs s' v = input_ptrs s v \<and> input_discontig_strides s' v = input_discontig_strides s v"
proof (induction inps arbitrary: s)
  case Nil
  then show ?case by simp
next
  case (Cons inp inps)
  from Cons.prems obtain s1 where s1: "bind_input s inp = Inr s1" "bind_inputs s1 inps = Inr s'"
    by (auto split: sum.splits)
  from Cons.prems have "v \<noteq> val inp" "v \<notin> val ` set inps" by auto
  with s1 Cons.IH[of s1] bind_input_other[of s inp s1 v] show ?case by simp
qed

lemma bind_inputs_recorded:
  "bind_inputs s inps = Inr s' \<Longrightarrow> distinct (map val inps) \<Longrightarrow> inp \<in> set inps \<Longrightarrow>
   is_TensorView inp \<Longrightarrow> \<not> isCpuScalar inp \<Longrightarrow>
     input_ptrs s' (val inp) = Some (data inp) \<and>
     input_discontig_strides s' (val inp) = Some (discontig_strides inp)"
proof (induction inps arbitrary: s)
  case Nil
  then show ?case by simp
next
  case (Cons x inps)
  from Cons.prems obtain s1 where s1: "bind_input s x = Inr s1" "bind_inputs s1 inps = Inr s'"
    by (auto split: sum.splits)
  show ?case
  proof (cases "inp = x")
    case True
    with Cons.prems have "val inp \<notin> val ` set inps" by auto
    with s1 bind_inputs_other[of s1 inps s' "val inp"]
      bind_input_recorded[of s x s1] True Cons.prems
    show ?thesis by simp
  next
    case False
    with Cons.prems s1 Cons.IH[of s1] show ?thesis by simp
  qed
qed

lemma ctor_not_input:
  assumes "SchedulerRuntimeInfo_ctor inputs n forced computed = Inr s0"
    and "tv \<notin> val ` set inputs"
  shows "input_ptrs s0 tv = None \<and> input_discontig_strides s0 tv = None"
  using assms bind_inputs_other[of _ inputs s0 tv]
  by (auto simp add: SchedulerRuntimeInfo_ctor_def split: if_splits)

lemma ctor_alignment_map:
  assumes "SchedulerRuntimeInfo_ctor inputs n forced computed = Inr s0"
  shows "alignment_map s0 = Map.empty"
  using assms bind_inputs_alignment_map[of _ inputs s0]
  by (auto simp add: SchedulerRuntimeInfo_ctor_def split: if_splits)

lemma ctor_recorded:
  assumes "SchedulerRuntimeInfo_ctor inputs n forced computed = Inr s0"
    and "distinct (map val inputs)" "inp \<in> set inputs" "is_TensorView inp" "\<not> isCpuScalar inp"
  shows "input_ptrs s0 (val inp) = Some (data inp) \<and>
     input_discontig_strides s0 (val inp) = Some (discontig_strides inp)"
  using assms bind_inputs_recorded[of _ inputs s0 inp]
  by (auto simp add: SchedulerRuntimeInfo_ctor_def split: if_splits)

lemma getAlignmentSize_unfold:
  "getAlignmentSize s tv =
     (case alignment_map s tv of
        Some a \<Rightarrow> (a, s)
      | None \<Rightarrow> (fresh_alignment s tv,
                 s\<lparr>alignment_map := (alignment_map s)(tv \<mapsto> fresh_alignment s tv)\<rparr>))"
  by (simp add: getAlignmentSize_def fresh_alignment_def Let_def split: option.splits)

lemma getAlignmentSize_frame:
  "input_ptrs (snd (getAlignmentSize s tv)) = input_ptrs s \<and>
   input_discontig_strides (snd (getAlignmentSize s tv)) = input_discontig_strides s"
  by (simp add: getAlignmentSize_unfold split: option.splits)

lemma fresh_alignment_frame:
  assumes "input_ptrs s' = input_ptrs s"
    and "input_discontig_strides s' = input_discontig_strides s"
  shows "fresh_alignment s' tv = fresh_alignment s tv"
proof -
  have "ptrOf s' tv = ptrOf s tv"
    using assms(1) by (simp add: ptrOf_def)
  then show ?thesis
    using assms(2) by (simp add: fresh_alignment_def split: option.splits)
qed

lemma getAlignmentSize_memo_ok:
  assumes "memo_ok s"
  shows "memo_ok (snd (getAlignmentSize s tv))"
proof (cases "alignment_map s tv")
  case (Some a)
  then show ?thesis using assms by (simp add: getAlignmentSize_unfold)
next
  case None
  let ?s' = "s\<lparr>alignment_map := (alignment_map s)(tv \<mapsto> fresh_alignment s tv)\<rparr>"
  have fr: "fresh_alignment ?s' x = fresh_alignment s x" for x
    by (rule fresh_alignment_frame) simp_all
  have "memo_ok ?s'"
    using assms by (simp add: memo_ok_def fr)
  with None show ?thesis by (simp add: getAlignmentSize_unfold)
qed

lemma getAlignmentSize_value:
  assumes "memo_ok s"
  shows "fst (getAlignmentSize s tv) = fresh_alignment s tv"
proof (cases "alignment_map s tv")
  case (Some a)
  then show ?thesis using assms by (simp add: getAlignmentSize_unfold memo_ok_def)
next
  case None
  then show ?thesis by (simp add: getAlignmentSize_unfold)
qed

lemma getAlignmentSize_again:
  "getAlignmentSize (snd (getAlignmentSize s tv)) tv
     = (fst (getAlignmentSize s tv), snd (getAlignmentSize s tv))"
  by (cases "alignment_map s tv") (simp_all add: getAlignmentSize_unfold)

lemma getAlignmentSize_memoizes:
  "alignment_map (snd (getAlignmentSize s tv)) tv = Some (fst (getAlignmentSize s tv))"
  by (cases "alignment_map s tv") (simp_all add: getAlignmentSize_unfold)

lemma getAlignmentSize_alignment_map:
  "alignment_map (snd (getAlignmentSize s tv))
     = (alignment_map s)(tv \<mapsto> fst (getAlignmentSize s tv))"
  by (cases "alignment_map s tv") (auto simp add: getAlignmentSize_unfold)

lemma reachable_inv:
  "reachable s0 s \<Longrightarrow> memo_ok s0 \<Longrightarrow>
     memo_ok s \<and> input_ptrs s = input_ptrs s0 \<and>
     input_discontig_strides s = input_discontig_strides s0"
proof (induction rule: reachable.induct)
  case (reachable_refl s)
  then show ?case by simp
next
  case (reachable_call s s' tv)
  then show ?case
    using getAlignmentSize_memo_ok[of s' tv] getAlignmentSize_frame[of s' tv] by simp
qed

lemma ctor_memo_ok:
  "SchedulerRuntimeInfo_ctor inputs n forced computed = Inr s0 \<Longrightarrow> memo_ok s0"
  by (simp add: memo_ok_def ctor_alignment_map)

lemma computeAlignmentSize_max: "computeAlignmentSize max_alignment_size_in_byte = 16"
  by (simp add: computeAlignmentSize_closed max_alignment_size_in_byte_def)

lemma example_discontig: "discontig_strides example_tensor_input = [4]"
  by (simp add: discontig_strides_def example_tensor_input_def)

lemma example_ctor:
  "SchedulerRuntimeInfo_ctor [example_tensor_input, example_cpu_scalar_input] 2 None
     PrimDataType_Int32 = Inr example_runtime_info"
  by (simp add: SchedulerRuntimeInfo_ctor_def bind_input_def example_discontig
      example_runtime_info_def)
    (simp add: example_tensor_input_def example_cpu_scalar_input_def)

section \<open>Scheduler registry: auxiliary facts\<close>

lemma checkCanSchedule_accepts:
  "sh \<noteq> ExprEval \<Longrightarrow>
   checkCanSchedule reg sh fusion runtime_info None = Inr (accepts reg sh fusion runtime_info)"
  by (simp add: checkCanSchedule_def accepts_def passes_early_checks_def)

lemma canSchedule_accepts:
  "canSchedule reg sh fusion runtime_info None = Inr (accepts reg sh fusion runtime_info)"
  by (cases sh) (simp_all add: canSchedule_def checkCanSchedule_accepts, simp add: accepts_def)

lemma proposeHeuristics_loop_find:
  "proposeHeuristics_loop reg fusion runtime_info shs
     = Inr (find (\<lambda>sh. accepts reg sh fusion runtime_info) shs)"
  by (induction shs) (simp_all add: canSchedule_accepts)

lemma find_Some_split:
  "find P xs = Some x \<Longrightarrow> P x \<and> (\<exists>pre post. xs = pre @ x # post \<and> (\<forall>y \<in> set pre. \<not> P y))"
proof (induction xs)
  case Nil
  then show ?case by simp
next
  case (Cons a xs)
  show ?case
  proof (cases "P a")
    case True
    with Cons.prems have "a = x" by simp
    with True show ?thesis by (intro conjI exI[of _ "[]"] exI[of _ xs]) simp_all
  next
    case False
    with Cons.prems have "find P xs = Some x" by simp
    with Cons.IH obtain pre post where
      px: "P x" and xs: "xs = pre @ x # post" and np: "\<forall>y \<in> set pre. \<not> P y" by blast
    from xs have "a # xs = (a # pre) @ x # post" by simp
    moreover from np False have "\<forall>y \<in> set (a # pre). \<not> P y" by simp
    ultimately show ?thesis using px by blast
  qed
qed

lemma all_heuristics_listed: "sh \<in> set all_heuristics_in_priority_order"
  by (cases sh) (simp_all add: all_heuristics_in_priority_order_def)

section \<open>Allocation placement: auxiliary facts\<close>

lemma getAllocInformation_loop_alloc_pos:
  "getAllocInformation_loop gpu_lower tv id_map use_id_map fls info found = Inr info' \<Longrightarrow>
   alloc_pos info \<le> getComputeAtPosition tv \<Longrightarrow>
   alloc_pos info' \<le> getComputeAtPosition tv"
proof (induction fls arbitrary: info found)
  case Nil
  then show ?case by simp
next
  case (Cons fl fls)
  show ?case
  proof (cases "alloc_pos info = getComputeAtPosition tv")
    case True
    with Cons.prems show ?thesis by simp
  next
    case False
    with Cons.prems(2) have lt: "alloc_pos info < getComputeAtPosition tv" by simp
    from Cons.prems(1) False obtain ax where ax: "axis tv (alloc_pos info) = Inr ax"
      by (cases "axis tv (alloc_pos info)") simp_all
    show ?thesis
    proof (cases "isReduction ax \<or> getParallelType (iter_domain fl) = Unroll")
      case True
      with Cons.prems(1) False ax have "info' = info"
        by (auto simp add: Let_def split: if_splits)
      with Cons.prems(2) show ?thesis by simp
    next
      case stay: False
      from Cons.prems(1) False ax stay obtain info3 found3 where
        rec: "getAllocInformation_loop gpu_lower tv id_map use_id_map fls info3 found3 = Inr info'"
        and pos: "alloc_pos info3 \<le> alloc_pos info + 1"
        by (auto simp add: Let_def split: if_splits)
      from pos lt have "alloc_pos info3 \<le> getComputeAtPosition tv" by simp
      with rec show ?thesis by (rule Cons.IH)
    qed
  qed
qed

section \<open>Pointwise scheduler: auxiliary facts\<close>

lemma findReferenceTensorView_loop_spec:
  assumes inv: "case result of
                  None \<Rightarrow> max_dims = - 1
                | Some k \<Rightarrow> max_dims = int (nRootDims (done ! k)) \<and> k < length done \<and>
                     eligible m (done ! k) \<and>
                     (\<forall>j < length done. eligible m (done ! j) \<longrightarrow>
                         nRootDims (done ! j) \<le> nRootDims (done ! k)) \<and>
                     (\<forall>j < k. eligible m (done ! j) \<longrightarrow> nRootDims (done ! j) < nRootDims (done ! k))"
    and none: "result = None \<longrightarrow> (\<forall>j < length done. \<not> eligible m (done ! j))"
    and i: "i = length done"
  shows "case findReferenceTensorView_loop outs i m result max_dims of
           None \<Rightarrow> (\<forall>j < length (done @ outs). \<not> eligible m ((done @ outs) ! j))
         | Some k \<Rightarrow> k < length (done @ outs) \<and> eligible m ((done @ outs) ! k) \<and>
              (\<forall>j < length (done @ outs). eligible m ((done @ outs) ! j) \<longrightarrow>
                  nRootDims ((done @ outs) ! j) \<le> nRootDims ((done @ outs) ! k)) \<and>
              (\<forall>j < k. eligible m ((done @ outs) ! j) \<longrightarrow>
                  nRootDims ((done @ outs) ! j) < nRootDims ((done @ outs) ! k))"
  using assms
proof (induction outs arbitrary: "done" i result max_dims)
  case Nil
  then show ?case by (cases result) auto
next
  case (Cons x outs)
  let ?done' = "done @ [x]"
  have app: "done @ x # outs = ?done' @ outs" by simp
  show ?case
  proof (cases "eligible m x \<and> int (nRootDims x) > max_dims")
    case True
    then have step: "findReferenceTensorView_loop (x # outs) i m result max_dims
        = findReferenceTensorView_loop outs (i + 1) m (Some i) (int (nRootDims x))"
      by (simp add: eligible_def)
    have old: "\<forall>j < length done. eligible m (done ! j) \<longrightarrow> nRootDims (done ! j) < nRootDims x"
    proof (cases result)
      case None
      with Cons.prems show ?thesis by simp
    next
      case (Some k)
      with Cons.prems(1) True show ?thesis by fastforce
    qed
    have inv': "case Some i of
                  None \<Rightarrow> int (nRootDims x) = - 1
                | Some k \<Rightarrow> int (nRootDims x) = int (nRootDims (?done' ! k)) \<and> k < length ?done' \<and>
                     eligible m (?done' ! k) \<and>
                     (\<forall>j < length ?done'. eligible m (?done' ! j) \<longrightarrow>
                         nRootDims (?done' ! j) \<le> nRootDims (?done' ! k)) \<and>
                     (\<forall>j < k. eligible m (?done' ! j) \<longrightarrow> nRootDims (?done' ! j) < nRootDims (?done' ! k))"
      using True old Cons.prems(3)
      by (auto simp add: nth_append less_Suc_eq dest: order.strict_implies_order)
    show ?thesis
      unfolding step app
      by (rule Cons.IH[OF inv']) (simp_all add: Cons.prems(3))
  next
    case False
    then have step: "findReferenceTensorView_loop (x # outs) i m result max_dims
        = findReferenceTensorView_loop outs (i + 1) m result max_dims"
      by (auto simp add: eligible_def)
    have inv': "case result of
                  None \<Rightarrow> max_dims = - 1
                | Some k \<Rightarrow> max_dims = int (nRootDims (?done' ! k)) \<and> k < length ?done' \<and>
                     eligible m (?done' ! k) \<and>
                     (\<forall>j < length ?done'. eligible m (?done' ! j) \<longrightarrow>
                         nRootDims (?done' ! j) \<le> nRootDims (?done' ! k)) \<and>
                     (\<forall>j < k. eligible m (?done' ! j) \<longrightarrow> nRootDims (?done' ! j) < nRootDims (?done' ! k))"
    proof (cases result)
      case None
      with Cons.prems show ?thesis by simp
    next
      case (Some k)
      with Cons.prems(1) False show ?thesis
        by (auto simp add: nth_append less_Suc_eq)
    qed
    have none': "result = None \<longrightarrow> (\<forall>j < length ?done'. \<not> eligible m (?done' ! j))"
    proof
      assume r: "result = None"
      with Cons.prems(1) have "max_dims = - 1" by simp
      with False have "\<not> eligible m x" by simp
      with r Cons.prems(2) show "\<forall>j < length ?done'. \<not> eligible m (?done' ! j)"
        by (auto simp add: nth_append less_Suc_eq)
    qed
    show ?thesis
      unfolding step app
      by (rule Cons.IH[OF inv' none']) (simp add: Cons.prems(3))
  qed
qed









text \<open>The examples, evaluated.\<close>

lemmas heuristics_eval =
  break_point_step_def cur_right_elem_count_at_def left_transfer_size_at_def
  right_transfer_size_at_def BreakPointSearch_init_def ceilDiv_def div64_def cdiv_def
  min64_def max64_def shift_right_2_def kThreadX_def int64_max_def example_device_def Let_def

















text \<open>
  With eight dimensions of extent 16 nine times the 1-D transfer size wraps around to a
  negative value: no candidate is adopted, and the heuristics keep break point 0.
\<close>

lemma example_wrap_16_elem_counts:
  "infer_elem_counts (inferred_extents example_wrap_inputs_16)
     = Inr [16, 16, 16, 16, 16, 16, 16, 16]"
  by (simp add: example_wrap_inputs_16_def)

lemma example_wrap_16_transfer_size_1d:
  "transfer_size_1d_of [16, 16, 16, 16, 16, 16, 16, 16] (dtype_sum_of example_wrap_inputs_16)
     = 2 ^ 48 * 6561 \<and>
   sint ((2 ^ 48 * 6561 :: int64_t) * 9) < 0"
  by (simp add: transfer_size_1d_of_def dtype_sum_of_def example_wrap_inputs_16_def)

lemma example_wrap_16_heuristics:
  "getPointwiseHeuristics example_wrap_inputs_16 example_params0
     = Inr \<lparr>vectorize = True, params_break_point = 0, split_block = False,
            split_grid_y_dim = False, params_flip_grid_binding = False,
            unroll_factor = 4, lparams_TIDx = Some 128, lparams_TIDy = None\<rparr>"
  by (simp add: getPointwiseHeuristics_def find_break_point_def n_elems_of_def
      max_unroll_factor_of_def max_input_dtype_size_of_def transfer_size_1d_of_def
      dtype_sum_of_def example_wrap_inputs_16_def example_params0_def heuristics_eval
      upt_rec[of _ "numeral _"] upt_rec[of _ "Suc _"])

section \<open>Index type selection\<close>

text \<open>
  C1 (as amended). \<^verbatim>\<open>KernelIndexTypeCompute::getType\<close> returns \<open>PrimDataType_Int32\<close>
  exactly when the accumulated most-positive index is at most \<open>2^30 - 1\<close> (half of the
  largest 32-bit signed value: one more bit than the sign bit is spared), and
  \<open>PrimDataType_Int\<close> otherwise. So for a tensor whose dimensions are added with
  \<^verbatim>\<open>addDim\<close>, with no negative stride on a dimension of size above 1 and a total that
  fits 64 bits, the 32-bit type is selected if and only if the sum of
  \<open>(size - 1) * stride\<close> over the dimensions with size above 1 and a positive stride
  is at most \<open>2^30 - 1\<close>.
\<close>

theorem getType_Int32_iff:
  "(getType c = PrimDataType_Int32 \<longleftrightarrow> sint (tensor_most_positive_index c) \<le> 2 ^ 30 - 1) \<and>
   (getType c = PrimDataType_Int \<longleftrightarrow> sint (tensor_most_positive_index c) > 2 ^ 30 - 1) \<and>
   ((\<forall>(sz, stride) \<in> set ds. sint sz > 1 \<longrightarrow> 0 \<le> sint stride) \<and>
    most_positive_index ds < 2 ^ 63 \<longrightarrow>
      (\<exists>c'. addDims KernelIndexTypeCompute_init ds = Inr c' \<and>
            sint (tensor_most_positive_index c') = most_positive_index ds \<and>
            (getType c' = PrimDataType_Int32 \<longleftrightarrow> most_positive_index ds \<le> 2 ^ 30 - 1)))"
proof (intro conjI impI)
  show "getType c = PrimDataType_Int32 \<longleftrightarrow> sint (tensor_most_positive_index c) \<le> 2 ^ 30 - 1"
    by (simp add: getType_def most_positive_int32_index_def int_max_def)
  show "getType c = PrimDataType_Int \<longleftrightarrow> sint (tensor_most_positive_index c) > 2 ^ 30 - 1"
    by (simp add: getType_def most_positive_int32_index_def int_max_def)
next
  assume a: "(\<forall>(sz, stride) \<in> set ds. sint sz > 1 \<longrightarrow> 0 \<le> sint stride) \<and>
    most_positive_index ds < 2 ^ 63"
  have z: "sint (tensor_most_positive_index KernelIndexTypeCompute_init) = 0"
    by (simp add: KernelIndexTypeCompute_init_def)
  from a z addDims_accumulates[of KernelIndexTypeCompute_init ds]
  obtain c' where c': "addDims KernelIndexTypeCompute_init ds = Inr c'"
      "sint (tensor_most_positive_index c') = most_positive_index ds"
    by auto
  have "getType c' = PrimDataType_Int32 \<longleftrightarrow> most_positive_index ds \<le> 2 ^ 30 - 1"
    using c'(2) by (simp add: getType_def most_positive_int32_index_def int_max_def)
  with c' show "\<exists>c'. addDims KernelIndexTypeCompute_init ds = Inr c' \<and>
            sint (tensor_most_positive_index c') = most_positive_index ds \<and>
            (getType c' = PrimDataType_Int32 \<longleftrightarrow> most_positive_index ds \<le> 2 ^ 30 - 1)"
    by blast
qed

text \<open>
  A contiguous tensor of shape 1024 x 1024 x 1024 has the most positive index
  \<open>2^30 - 1\<close>, and the 32-bit type is selected.
\<close>

theorem getType_Int32_iff_witness:
  "most_positive_index example_dims = 2 ^ 30 - 1 \<and>
   addDims KernelIndexTypeCompute_init example_dims
     = Inr \<lparr>tensor_most_positive_index = 1073741823\<rparr> \<and>
   getType \<lparr>tensor_most_positive_index = 1073741823\<rparr> = PrimDataType_Int32"
proof -
  have m: "most_positive_index example_dims = 2 ^ 30 - 1"
    by (simp add: example_dims_def)
  have s: "\<forall>(sz, stride) \<in> set example_dims. sint sz > 1 \<longrightarrow> 0 \<le> sint stride"
    by (simp add: example_dims_def)
  have run: "addDims KernelIndexTypeCompute_init example_dims
     = Inr \<lparr>tensor_most_positive_index = 1073741823\<rparr>"
    by (simp add: example_dims_def addDim_def KernelIndexTypeCompute_init_def Let_def)
  from getType_Int32_iff[of KernelIndexTypeCompute_init example_dims] s m
  have "\<exists>c'. addDims KernelIndexTypeCompute_init example_dims = Inr c' \<and>
            getType c' = PrimDataType_Int32"
    by auto
  with run have "getType \<lparr>tensor_most_positive_index = 1073741823\<rparr> = PrimDataType_Int32"
    by simp
  with m run show ?thesis by simp
qed

text \<open>
  C1 as stated fails: a contiguous tensor of \<open>2^30 + 1\<close> elements accumulates the index
  \<open>2^30\<close>, which is below \<open>2^31 - 1\<close>, and the selected type is the 64-bit one.
\<close>

theorem getType_threshold_counterexample:
  "addDim KernelIndexTypeCompute_init (2 ^ 30 + 1) 1
     = Inr (PrimDataType_Int, \<lparr>tensor_most_positive_index = 2 ^ 30\<rparr>) \<and>
   sint (2 ^ 30 :: int64_t) \<le> 2 ^ 31 - 1 \<and>
   getType \<lparr>tensor_most_positive_index = 2 ^ 30\<rparr> \<noteq> PrimDataType_Int32"
  by (simp add: addDim_def getType_def KernelIndexTypeCompute_init_def
      most_positive_int32_index_def int_max_def)

section \<open>Alignment of tensors\<close>

text \<open>
  C9 (as amended). For every fusion-input tensor that is not a CPU scalar,
  \<^verbatim>\<open>getAlignmentSize\<close> returns the minimum of \<^verbatim>\<open>computeAlignmentSize\<close> over the
  tensor's base address and its discontiguous strides in bytes, where
  \<^verbatim>\<open>computeAlignmentSize x\<close> is the largest power of two, at most 16, that divides
  \<open>x\<close>; the result is memoized: the call stores it in \<^verbatim>\<open>alignment_map\<close> under the
  tensor and changes no other entry, and a second call on the same tensor returns the
  same value and leaves the runtime info unchanged.
\<close>

theorem getAlignmentSize_input:
  assumes "SchedulerRuntimeInfo_ctor inputs n forced computed = Inr s0"
    and "reachable s0 s"
    and "distinct (map val inputs)" and "inp \<in> set inputs"
    and "is_TensorView inp" and "\<not> isCpuScalar inp"
  shows "fst (getAlignmentSize s (val inp))
           = Min (computeAlignmentSize ` set (data inp # discontig_strides inp)) \<and>
         (\<forall>x. unat (computeAlignmentSize x) \<in> {1, 2, 4, 8, 16} \<and>
              unat (computeAlignmentSize x) dvd unat x \<and>
              (\<forall>a \<in> {1, 2, 4, 8, 16}. a dvd unat x \<longrightarrow> a \<le> unat (computeAlignmentSize x))) \<and>
         alignment_map (snd (getAlignmentSize s (val inp))) (val inp)
           = Some (fst (getAlignmentSize s (val inp))) \<and>
         alignment_map (snd (getAlignmentSize s (val inp)))
           = (alignment_map s)(val inp \<mapsto> fst (getAlignmentSize s (val inp))) \<and>
         getAlignmentSize (snd (getAlignmentSize s (val inp))) (val inp)
           = (fst (getAlignmentSize s (val inp)), snd (getAlignmentSize s (val inp)))"
proof -
  from assms(1,2) have inv: "memo_ok s" "input_ptrs s = input_ptrs s0"
      "input_discontig_strides s = input_discontig_strides s0"
    using reachable_inv[of s0 s] ctor_memo_ok[of inputs n forced computed s0] by simp_all
  have rec: "input_ptrs s (val inp) = Some (data inp)"
      "input_discontig_strides s (val inp) = Some (discontig_strides inp)"
    using ctor_recorded[OF assms(1) assms(3) assms(4) assms(5) assms(6)] inv by simp_all
  have "fst (getAlignmentSize s (val inp)) = fresh_alignment s (val inp)"
    using inv(1) by (rule getAlignmentSize_value)
  also have "\<dots> = Min (computeAlignmentSize ` set (data inp # discontig_strides inp))"
    using rec by (simp add: fresh_alignment_def ptrOf_def fold_min_computeAlignmentSize)
  finally have v: "fst (getAlignmentSize s (val inp))
           = Min (computeAlignmentSize ` set (data inp # discontig_strides inp))" .
  have c: "unat (computeAlignmentSize x) \<in> {1, 2, 4, 8, 16} \<and>
              unat (computeAlignmentSize x) dvd unat x \<and>
              (\<forall>a \<in> {1, 2, 4, 8, 16}. a dvd unat x \<longrightarrow> a \<le> unat (computeAlignmentSize x))" for x
    by (intro conjI ballI impI computeAlignmentSize_range computeAlignmentSize_dvd
        computeAlignmentSize_largest)
  have call: "\<forall>x. unat (computeAlignmentSize x) \<in> {1, 2, 4, 8, 16} \<and>
              unat (computeAlignmentSize x) dvd unat x \<and>
              (\<forall>a \<in> {1, 2, 4, 8, 16}. a dvd unat x \<longrightarrow> a \<le> unat (computeAlignmentSize x))"
    by (intro allI c)
  show ?thesis
    by (rule conjI[OF v conjI[OF call conjI[OF getAlignmentSize_memoizes
        conjI[OF getAlignmentSize_alignment_map getAlignmentSize_again]]]])
qed

text \<open>
  The example tensor: its address is 16-byte aligned, the one discontiguous stride is 4
  bytes, and the alignment is 4, on the first call and on the second.
\<close>

theorem getAlignmentSize_input_witness:
  "fst (getAlignmentSize example_runtime_info 0) = 4 \<and>
   computeAlignmentSize 139637976727600 = 16 \<and> computeAlignmentSize 4 = 4 \<and>
   alignment_map example_runtime_info 0 = None \<and>
   alignment_map (snd (getAlignmentSize example_runtime_info 0)) 0 = Some 4 \<and>
   fst (getAlignmentSize (snd (getAlignmentSize example_runtime_info 0)) 0) = 4"
proof -
  have e: "alignment_map example_runtime_info 0 = None"
    by (simp add: example_runtime_info_def)
  have d: "distinct (map val [example_tensor_input, example_cpu_scalar_input])"
    by (simp add: example_tensor_input_def example_cpu_scalar_input_def)
  have m: "example_tensor_input \<in> set [example_tensor_input, example_cpu_scalar_input]"
    by simp
  have t: "is_TensorView example_tensor_input" "\<not> isCpuScalar example_tensor_input"
    by (simp_all add: example_tensor_input_def)
  have v: "val example_tensor_input = 0" "data example_tensor_input = 139637976727600"
    by (simp_all add: example_tensor_input_def)
  have c: "computeAlignmentSize 139637976727600 = 16" "computeAlignmentSize 4 = 4"
    by (simp_all add: computeAlignmentSize_closed)
  from getAlignmentSize_input[OF example_ctor reachable_refl d m t]
  show ?thesis
    by (simp add: v example_discontig c e)
qed

text \<open>
  C9 as stated fails for a fusion-input tensor that is a CPU scalar: the constructor
  records no pointer for it ("we are skipping CpuScalar tensor here"), and the alignment
  returned is 16, although the largest power of two that divides the tensor's address is
  4 and the tensor has no discontiguous stride.
\<close>

theorem getAlignmentSize_cpu_scalar_counterexample:
  "SchedulerRuntimeInfo_ctor [example_tensor_input, example_cpu_scalar_input] 2 None
     PrimDataType_Int32 = Inr example_runtime_info \<and>
   is_TensorView example_cpu_scalar_input \<and>
   computeAlignmentSize (data example_cpu_scalar_input) = 4 \<and>
   discontig_strides example_cpu_scalar_input = [] \<and>
   fst (getAlignmentSize example_runtime_info (val example_cpu_scalar_input)) = 16"
proof -
  have a: "fst (getAlignmentSize example_runtime_info 1) = 16"
    by (simp add: getAlignmentSize_def example_runtime_info_def ptrOf_def
        computeAlignmentSize_closed max_alignment_size_in_byte_def)
  have b: "computeAlignmentSize (data example_cpu_scalar_input) = 4"
    by (simp add: example_cpu_scalar_input_def computeAlignmentSize_closed)
  have c: "discontig_strides example_cpu_scalar_input = []"
    by (simp add: example_cpu_scalar_input_def discontig_strides_def)
  show ?thesis
    using example_ctor a b c by (simp add: example_cpu_scalar_input_def)
qed

text \<open>
  C10. For a tensor that is not a fusion input, \<^verbatim>\<open>ptrOf\<close> returns the maximum
  alignment size, 16, and \<^verbatim>\<open>getAlignmentSize\<close> returns 16, in the constructed runtime
  info and after any calls of \<^verbatim>\<open>getAlignmentSize\<close>.
\<close>

theorem ptrOf_non_input:
  assumes "SchedulerRuntimeInfo_ctor inputs n forced computed = Inr s0"
    and "reachable s0 s"
    and "tv \<notin> val ` set inputs"
  shows "ptrOf s tv = max_alignment_size_in_byte \<and> max_alignment_size_in_byte = 16 \<and>
         fst (getAlignmentSize s tv) = 16"
proof -
  from assms(1,2) have inv: "memo_ok s" "input_ptrs s = input_ptrs s0"
      "input_discontig_strides s = input_discontig_strides s0"
    using reachable_inv[of s0 s] ctor_memo_ok[of inputs n forced computed s0] by simp_all
  from assms(1,3) have none: "input_ptrs s tv = None" "input_discontig_strides s tv = None"
    using ctor_not_input[of inputs n forced computed s0 tv] inv by simp_all
  have p: "ptrOf s tv = max_alignment_size_in_byte"
    using none by (simp add: ptrOf_def)
  have "fst (getAlignmentSize s tv) = fresh_alignment s tv"
    using inv(1) by (rule getAlignmentSize_value)
  also have "\<dots> = 16"
    using none p by (simp add: fresh_alignment_def computeAlignmentSize_max)
  finally show ?thesis using p by (simp add: max_alignment_size_in_byte_def)
qed

text \<open>Tensor 7 is not an input of the example; it is asked twice.\<close>

theorem ptrOf_non_input_witness:
  "ptrOf (snd (getAlignmentSize example_runtime_info 7)) 7 = 16 \<and>
   fst (getAlignmentSize (snd (getAlignmentSize example_runtime_info 7)) 7) = 16"
proof -
  have r: "reachable example_runtime_info (snd (getAlignmentSize example_runtime_info 7))"
    by (rule reachable_call[OF reachable_refl])
  have n: "(7::nat) \<notin> val ` set [example_tensor_input, example_cpu_scalar_input]"
    by (simp add: example_tensor_input_def example_cpu_scalar_input_def)
  show ?thesis
    using ptrOf_non_input[OF example_ctor r n] by simp
qed

section \<open>Heuristic dispatch\<close>

text \<open>
  C3 (as amended). \<^verbatim>\<open>proposeHeuristics\<close> tries the schedulers in the priority order
  ExprEval, NoOp, Matmul, Transpose, InnerPersistent, OuterPersistent,
  InnerOuterPersistent, Reduction, PointWise and returns the first kind that
  \<^verbatim>\<open>canSchedule\<close> accepts: for the expression evaluator that is its compile-time gate
  alone, for every other kind the fusion must pass the early rejections of
  \<^verbatim>\<open>checkCanSchedule\<close> (no SDPA op, no matmul op unless the kind is Matmul, a connected
  graph, no self-mapping) and both gates of the scheduler must return true. It returns no
  heuristic exactly when \<^verbatim>\<open>canSchedule\<close> rejects the fusion for every kind.
\<close>

theorem proposeHeuristics_first_accepted:
  "all_heuristics_in_priority_order =
     [ExprEval, NoOp, Matmul, Transpose, InnerPersistent, OuterPersistent,
      InnerOuterPersistent, Reduction, PointWise] \<and>
   (\<exists>r. proposeHeuristics reg fusion runtime_info = Inr r \<and>
       (\<forall>sh. canSchedule reg sh fusion runtime_info None
               = Inr (accepts reg sh fusion runtime_info)) \<and>
       (r = None \<longleftrightarrow> (\<forall>sh. \<not> accepts reg sh fusion runtime_info)) \<and>
       (\<forall>sh. r = Some sh \<longrightarrow>
          accepts reg sh fusion runtime_info \<and>
          (\<exists>pre post.
             all_heuristics_in_priority_order = pre @ sh # post \<and>
             (\<forall>sh' \<in> set pre. \<not> accepts reg sh' fusion runtime_info))))"
proof -
  let ?P = "\<lambda>sh. accepts reg sh fusion runtime_info"
  let ?r = "find ?P all_heuristics_in_priority_order"
  have run: "proposeHeuristics reg fusion runtime_info = Inr ?r"
    by (simp add: proposeHeuristics_def proposeHeuristics_loop_find)
  have none: "?r = None \<longleftrightarrow> (\<forall>sh. \<not> ?P sh)"
    using all_heuristics_listed by (auto simp add: find_None_iff)
  have some: "\<forall>sh. ?r = Some sh \<longrightarrow>
          ?P sh \<and>
          (\<exists>pre post.
             all_heuristics_in_priority_order = pre @ sh # post \<and>
             (\<forall>sh' \<in> set pre. \<not> ?P sh'))"
    using find_Some_split[of ?P all_heuristics_in_priority_order] by blast
  have cs: "\<forall>sh. canSchedule reg sh fusion runtime_info None = Inr (?P sh)"
    by (simp add: canSchedule_accepts)
  have "\<exists>r. proposeHeuristics reg fusion runtime_info = Inr r \<and>
       (\<forall>sh. canSchedule reg sh fusion runtime_info None = Inr (?P sh)) \<and>
       (r = None \<longleftrightarrow> (\<forall>sh. \<not> ?P sh)) \<and>
       (\<forall>sh. r = Some sh \<longrightarrow>
          ?P sh \<and>
          (\<exists>pre post.
             all_heuristics_in_priority_order = pre @ sh # post \<and>
             (\<forall>sh' \<in> set pre. \<not> ?P sh')))"
    by (rule exI[of _ ?r]) (intro conjI run cs none some)
  then show ?thesis
    by (intro conjI) (rule all_heuristics_in_priority_order_def)
qed

text \<open>
  On a connected fusion that the expression evaluator refuses at compile time and every
  other scheduler accepts at both gates, the no-op scheduler, second in the order, wins.
\<close>

theorem proposeHeuristics_first_accepted_witness:
  "proposeHeuristics example_registry example_pointwise_fusion example_runtime_info
     = Inr (Some NoOp) \<and>
   accepts example_registry NoOp example_pointwise_fusion example_runtime_info \<and>
   \<not> accepts example_registry ExprEval example_pointwise_fusion example_runtime_info"
proof -
  have run: "proposeHeuristics example_registry example_pointwise_fusion example_runtime_info
     = Inr (Some NoOp)"
    by (simp add: proposeHeuristics_def all_heuristics_in_priority_order_def canSchedule_def
        checkCanSchedule_def example_registry_def example_pointwise_fusion_def)
  from proposeHeuristics_first_accepted
    [of example_registry example_pointwise_fusion example_runtime_info]
  have "\<exists>r. proposeHeuristics example_registry example_pointwise_fusion
        example_runtime_info = Inr r \<and>
     (\<forall>sh. r = Some sh \<longrightarrow>
          accepts example_registry sh example_pointwise_fusion example_runtime_info \<and>
          (\<exists>pre post.
             all_heuristics_in_priority_order = pre @ sh # post \<and>
             (\<forall>sh' \<in> set pre.
                \<not> accepts example_registry sh' example_pointwise_fusion example_runtime_info)))"
    by blast
  then obtain r where r: "proposeHeuristics example_registry example_pointwise_fusion
        example_runtime_info = Inr r"
    and s: "\<forall>sh. r = Some sh \<longrightarrow>
          accepts example_registry sh example_pointwise_fusion example_runtime_info \<and>
          (\<exists>pre post.
             all_heuristics_in_priority_order = pre @ sh # post \<and>
             (\<forall>sh' \<in> set pre.
                \<not> accepts example_registry sh' example_pointwise_fusion example_runtime_info))"
    by blast
  from r run have "r = Some NoOp" by simp
  with s have a: "accepts example_registry NoOp example_pointwise_fusion example_runtime_info"
    by blast
  have e: "\<not> accepts example_registry ExprEval example_pointwise_fusion example_runtime_info"
    by (simp add: accepts_def example_registry_def)
  show ?thesis using run a e by simp
qed

text \<open>
  C3 as stated fails: on a fusion whose graph is not connected, the first scheduler whose
  two gates both return true is the no-op scheduler, and \<^verbatim>\<open>proposeHeuristics\<close> returns
  no heuristic, since \<^verbatim>\<open>checkCanSchedule\<close> rejects the fusion before any gate is asked.
\<close>

theorem proposeHeuristics_gates_counterexample:
  "find (\<lambda>sh. both_gates example_registry sh example_disconnected_fusion example_runtime_info)
     all_heuristics_in_priority_order = Some NoOp \<and>
   proposeHeuristics example_registry example_disconnected_fusion example_runtime_info
     = Inr None"
  by (simp add: proposeHeuristics_def all_heuristics_in_priority_order_def canSchedule_def
      checkCanSchedule_def both_gates_def example_registry_def example_disconnected_fusion_def)

text \<open>
  C4 (as amended). Without a data cache, \<^verbatim>\<open>checkCanSchedule\<close> (and so
  \<^verbatim>\<open>canSchedule\<close>) returns false, whatever the gates of the scheduler say, for every
  fusion with a MatmulOp, LinearOp or MmaOp and every scheduler other than the Matmul and
  the expression-eval scheduler, and for every fusion with an SdpaFwdOp or SdpaBwdOp and
  every scheduler other than the expression-eval scheduler.
\<close>

theorem canSchedule_early_no:
  "(hasOpsOfType_MatmulOp_LinearOp_MmaOp fusion \<and> sh \<noteq> Matmul \<and> sh \<noteq> ExprEval \<longrightarrow>
      checkCanSchedule reg sh fusion runtime_info None = Inr False \<and>
      canSchedule reg sh fusion runtime_info None = Inr False) \<and>
   (hasOpsOfType_SdpaFwdOp_SdpaBwdOp fusion \<and> sh \<noteq> ExprEval \<longrightarrow>
      checkCanSchedule reg sh fusion runtime_info None = Inr False \<and>
      canSchedule reg sh fusion runtime_info None = Inr False)"
  by (cases sh) (simp_all add: canSchedule_def checkCanSchedule_def)

text \<open>
  The pointwise scheduler on a fusion with a matmul op, and the matmul scheduler on a
  fusion with an SDPA op, with gates that would accept.
\<close>

theorem canSchedule_early_no_witness:
  "hasOpsOfType_MatmulOp_LinearOp_MmaOp example_matmul_fusion \<and>
   both_gates example_registry PointWise example_matmul_fusion example_runtime_info \<and>
   canSchedule example_registry PointWise example_matmul_fusion example_runtime_info None
     = Inr False \<and>
   hasOpsOfType_SdpaFwdOp_SdpaBwdOp example_sdpa_fusion \<and>
   canSchedule example_registry Matmul example_sdpa_fusion example_runtime_info None
     = Inr False"
  using canSchedule_early_no
      [of example_matmul_fusion PointWise example_registry example_runtime_info]
    canSchedule_early_no
      [of example_sdpa_fusion Matmul example_registry example_runtime_info]
  by (simp add: example_matmul_fusion_def example_sdpa_fusion_def both_gates_def
      example_registry_def)

text \<open>
  C4 as stated fails for the expression-eval scheduler, which is a scheduler other than
  the Matmul one: on a fusion with a matmul op \<^verbatim>\<open>canSchedule\<close> returns what its
  compile-time gate returns, here true, and \<^verbatim>\<open>checkCanSchedule\<close> instantiated with it
  raises an error instead of returning false.
\<close>

theorem canSchedule_expr_eval_counterexample:
  "hasOpsOfType_MatmulOp_LinearOp_MmaOp example_matmul_fusion \<and> ExprEval \<noteq> Matmul \<and>
   canSchedule example_expr_eval_registry ExprEval example_matmul_fusion
     example_runtime_info None = Inr True \<and>
   checkCanSchedule example_expr_eval_registry ExprEval example_matmul_fusion
     example_runtime_info None = Inl NVF_ERROR"
  by (simp add: canSchedule_def checkCanSchedule_def example_expr_eval_registry_def
      example_matmul_fusion_def)

section \<open>Allocation outside compute-at\<close>

text \<open>
  C5. For every tensor with compute-at position \<open>p\<close>, the allocation position that
  \<^verbatim>\<open>getAllocInformation\<close> returns is at most \<open>p\<close>: the walk over the enclosing
  for-loops advances the position by at most one per loop and stops as soon as it
  equals \<open>p\<close>.
\<close>

theorem getAllocInformation_alloc_pos:
  "getAllocInformation gpu_lower tv for_loops id_map use_id_map = Inr info \<Longrightarrow>
   alloc_pos info \<le> getComputeAtPosition tv"
  unfolding getAllocInformation_def
  by (erule getAllocInformation_loop_alloc_pos) (simp add: BasicAllocInfo_init_def)

text \<open>
  In the example all three loops are mapped to the tensor's axes; the walk stops at the
  third loop, with the allocation position 2 and the second loop as allocation loop.
\<close>

theorem getAllocInformation_alloc_pos_witness:
  "getAllocInformation example_gpu_lower example_tv example_for_loops Map.empty False
     = Inr \<lparr>init_for_loop = Some \<lparr>fl_addr = 11, iter_domain = example_id 1\<rparr>,
            alloc_for_loop = Some \<lparr>fl_addr = 11, iter_domain = example_id 1\<rparr>,
            alloc_pos = 2\<rparr> \<and>
   alloc_pos \<lparr>init_for_loop = Some \<lparr>fl_addr = 11, iter_domain = example_id 1\<rparr>,
            alloc_for_loop = Some \<lparr>fl_addr = 11, iter_domain = example_id 1\<rparr>,
            alloc_pos = 2\<rparr> \<le> getComputeAtPosition example_tv"
proof -
  have run: "getAllocInformation example_gpu_lower example_tv example_for_loops Map.empty False
     = Inr \<lparr>init_for_loop = Some \<lparr>fl_addr = 11, iter_domain = example_id 1\<rparr>,
            alloc_for_loop = Some \<lparr>fl_addr = 11, iter_domain = example_id 1\<rparr>,
            alloc_pos = 2\<rparr>"
    by (simp add: getAllocInformation_def BasicAllocInfo_init_def example_for_loops_def
        example_tv_def example_gpu_lower_def axis_def example_id_def Let_def)
  from getAllocInformation_alloc_pos[OF run] run show ?thesis by simp
qed

section \<open>Pointwise scheduler\<close>

text \<open>
  C6 (as amended). \<^verbatim>\<open>DomainMap::findReferenceTensorView\<close> considers only the fusion
  outputs that are tensor views, are valid references, have the minimum size and are not
  fusion inputs. It returns none if there is no such output; otherwise it returns the one
  among them with the most dimensions as counted by \<^verbatim>\<open>nRootDims\<close>, and when several
  tie on that count, the one with the smallest output index.
\<close>

theorem findReferenceTensorView_most_dims:
  "case findReferenceTensorView outputs minimum_num_axes of
     None \<Rightarrow> (\<forall>j < length outputs. \<not> eligible minimum_num_axes (outputs ! j))
   | Some k \<Rightarrow>
       k < length outputs \<and> eligible minimum_num_axes (outputs ! k) \<and>
       (\<forall>j < length outputs. eligible minimum_num_axes (outputs ! j) \<longrightarrow>
            nRootDims (outputs ! j) \<le> nRootDims (outputs ! k)) \<and>
       (\<forall>j < k. eligible minimum_num_axes (outputs ! j) \<longrightarrow>
            nRootDims (outputs ! j) < nRootDims (outputs ! k))"
  unfolding findReferenceTensorView_def
  using findReferenceTensorView_loop_spec
    [where result = None and max_dims = "- 1" and ?done = "[]" and m = minimum_num_axes
       and i = 0 and outs = outputs]
  by (simp cong: option.case_cong)

text \<open>
  Of three computed outputs with 1, 3 and 3 dimensions the second is the reference: it
  ties with the third and comes first.
\<close>

theorem findReferenceTensorView_most_dims_witness:
  "findReferenceTensorView example_outputs_tie 0 = Some 1 \<and>
   eligible 0 (example_outputs_tie ! 1) \<and> eligible 0 (example_outputs_tie ! 2) \<and>
   nRootDims (example_outputs_tie ! 2) \<le> nRootDims (example_outputs_tie ! 1) \<and>
   nRootDims (example_outputs_tie ! 0) < nRootDims (example_outputs_tie ! 1)"
proof -
  have run: "findReferenceTensorView example_outputs_tie 0 = Some 1"
    by (simp add: findReferenceTensorView_def example_outputs_tie_def hasMinimumSize_def)
  have e: "eligible 0 (example_outputs_tie ! 0)" "eligible 0 (example_outputs_tie ! 2)"
    by (simp_all add: eligible_def example_outputs_tie_def hasMinimumSize_def)
  have len: "length example_outputs_tie = 3"
    by (simp add: example_outputs_tie_def)
  from findReferenceTensorView_most_dims[of example_outputs_tie 0] run len
  have "eligible 0 (example_outputs_tie ! 1) \<and>
       (\<forall>j < 3. eligible 0 (example_outputs_tie ! j) \<longrightarrow>
            nRootDims (example_outputs_tie ! j) \<le> nRootDims (example_outputs_tie ! 1)) \<and>
       (\<forall>j < 1. eligible 0 (example_outputs_tie ! j) \<longrightarrow>
            nRootDims (example_outputs_tie ! j) < nRootDims (example_outputs_tie ! 1))"
    by simp
  with e run show ?thesis by simp
qed

text \<open>
  C6 as stated fails: when a fusion input is also the first output and the second output
  is computed from it, both have the most dimensions, and the reference is the second
  output, not the one with the smallest output index.
\<close>

theorem findReferenceTensorView_fusion_input_counterexample:
  "length example_outputs = 2 \<and>
   nRootDims (example_outputs ! 0) = 2 \<and> nRootDims (example_outputs ! 1) = 2 \<and>
   isValidReference (example_outputs ! 0) \<and> isFusionInput (example_outputs ! 0) \<and>
   findReferenceTensorView example_outputs 0 = Some 1"
  by (simp add: findReferenceTensorView_def example_outputs_def hasMinimumSize_def)








end
